theory Spec2Isabelle
  imports Main "HOL-Library.Char_ord" "HOL-Library.List_Lexorder"
begin

section \<open>Text\<close>

text \<open>
  Python text is modelled as \<open>string\<close>. The functions that look at single characters
  (\<open>str.upper\<close>, \<open>str.lower\<close>, \<open>str.isspace\<close>, the regular-expression class \<open>\s\<close>)
  are modelled on ASCII text: the letters \<open>a\<close> to \<open>z\<close> are the only characters that
  change case, and the white-space characters are the codes 9 to 13 and 28 to 32, which
  is what Python's \<open>str.isspace\<close> and \<open>\s\<close> accept below 128. Printing is not modelled.
\<close>

definition white_space :: string where
  "white_space = [CHR 0x09, CHR 0x0A, CHR 0x0B, CHR 0x0C, CHR 0x0D,
                  CHR 0x1C, CHR 0x1D, CHR 0x1E, CHR 0x1F, CHR 0x20]"

definition is_space :: "char \<Rightarrow> bool" where
  "is_space c = (c \<in> set white_space)"

definition ascii_upper :: string where
  "ascii_upper = ''ABCDEFGHIJKLMNOPQRSTUVWXYZ''"

definition ascii_lower :: string where
  "ascii_lower = ''abcdefghijklmnopqrstuvwxyz''"

definition to_upper :: "char \<Rightarrow> char" where
  "to_upper c = (case map_of (zip ascii_lower ascii_upper) c of None \<Rightarrow> c | Some u \<Rightarrow> u)"

definition to_lower :: "char \<Rightarrow> char" where
  "to_lower c = (case map_of (zip ascii_upper ascii_lower) c of None \<Rightarrow> c | Some l \<Rightarrow> l)"

definition upper :: "string \<Rightarrow> string" where
  "upper s = map to_upper s"

definition lower :: "string \<Rightarrow> string" where
  "lower s = map to_lower s"

text \<open>\<open>str.strip()\<close>: leading and trailing white space removed.\<close>

definition lstrip :: "string \<Rightarrow> string" where
  "lstrip s = dropWhile is_space s"

definition rstrip :: "string \<Rightarrow> string" where
  "rstrip s = rev (dropWhile is_space (rev s))"

definition strip :: "string \<Rightarrow> string" where
  "strip s = rstrip (lstrip s)"

text \<open>
  \<open>match_lit p s\<close>: the literal \<open>p\<close> matched at the start of \<open>s\<close>; the rest of \<open>s\<close>
  when it matches.
\<close>

fun match_lit :: "string \<Rightarrow> string \<Rightarrow> string option" where
  "match_lit [] s = Some s"
| "match_lit (p # ps) [] = None"
| "match_lit (p # ps) (c # cs) = (if p = c then match_lit ps cs else None)"


text \<open>
  \<open>str.count(old)\<close> and \<open>str.replace(old, new)\<close> for a non-empty \<open>old\<close>: the
  occurrences are taken from the left and do not overlap. With an empty \<open>old\<close> Python
  counts and replaces at every position, also at the end.
\<close>

function count_from :: "string \<Rightarrow> string \<Rightarrow> nat" where
  "count_from old [] = 0"
| "count_from old (c # cs) =
     (case match_lit old (c # cs) of
        Some rest \<Rightarrow> (if old = [] then 0 else Suc (count_from old rest))
      | None \<Rightarrow> count_from old cs)"
  by pat_completeness auto

lemma match_lit_length: "match_lit p s = Some r \<Longrightarrow> length s = length p + length r"
  by (induction p s rule: match_lit.induct) (auto split: if_splits)

termination count_from
  by (relation "measure (\<lambda>(old, s). length s)") (auto dest: match_lit_length)

definition count_str :: "string \<Rightarrow> string \<Rightarrow> nat" where
  "count_str s old = (if old = [] then Suc (length s) else count_from old s)"

function replace_from :: "string \<Rightarrow> string \<Rightarrow> string \<Rightarrow> string" where
  "replace_from old new [] = []"
| "replace_from old new (c # cs) =
     (case match_lit old (c # cs) of
        Some rest \<Rightarrow> (if old = [] then c # cs else new @ replace_from old new rest)
      | None \<Rightarrow> c # replace_from old new cs)"
  by pat_completeness auto

termination replace_from
  by (relation "measure (\<lambda>(old, new, s). length s)") (auto dest: match_lit_length)

definition replace :: "string \<Rightarrow> string \<Rightarrow> string \<Rightarrow> string" where
  "replace s old new =
     (if old = [] then new @ concat (map (\<lambda>c. c # new) s) else replace_from old new s)"

section \<open>Workflow files\<close>

text \<open>
  The workflow of one schema lives in \<open>schemas/<schema>/temp\<close>: the directories
  \<open>raw\<close>, \<open>analysis\<close>, \<open>suggested\<close> and \<open>final\<close>, the file \<open>decisions.json\<close> and the file
  \<open>workflow_state.json\<close>. A directory is the list of its plain files, name and content.
  \<open>None\<close> stands for a directory or file that does not exist.
\<close>

type_synonym dir = "(string \<times> string) list"

record suggestion =
  s_original :: string
  s_suggested :: string
  s_is_safe :: bool
  s_context :: string
  s_reason :: string
  s_risk_level :: string

record decision =
  suggestion_num :: nat
  d_original :: string
  d_suggested :: string
  d_context :: string
  d_reason :: string
  d_is_safe :: bool
  d_risk_level :: string
  d_decision :: string
  reviewed_at :: string
  user_notes :: string

text \<open>
  A JSON value read from a file: a string, or anything else. The details payload of the
  state file is a list of named values.
\<close>

datatype jvalue = JStr string | JOther

datatype detail = DStr string | DNat nat | DBool bool | DStrs "string list"

record state_doc =
  current_step :: "jvalue option"
  last_updated :: string
  details :: "(string \<times> detail) list"

text \<open>
  What \<open>json.load\<close> makes of a file: it raises (the file is not JSON, or not of the
  expected shape), or it gives the document.
\<close>

datatype 'a json_file = Unparseable | Parsed 'a

text \<open>
  The report \<open>analysis/templating_analysis.md\<close> is kept as the list of suggestions that
  \<open>_parse_analysis_report\<close> reads from it.
\<close>

type_synonym report = "suggestion list"

record tempdir =
  raw :: "dir option"
  analysis :: "report option option"
  suggested :: "dir option"
  final :: "dir option"
  decisions_file :: "decision list json_file option"
  state_file :: "state_doc json_file option"

record world =
  temp :: "tempdir option"
  main_schema_dir :: dir

definition empty_temp :: tempdir where
  "empty_temp = \<lparr>raw = None, analysis = None, suggested = None, final = None,
     decisions_file = None, state_file = None\<rparr>"

text \<open>\<open>Path.glob("*.sql")\<close> on a directory: the files whose name ends in \<open>.sql\<close>.\<close>

definition is_sql :: "string \<Rightarrow> bool" where
  "is_sql name = (length name \<ge> 4 \<and> drop (length name - 4) name = ''.sql'')"

definition glob_sql :: "dir \<Rightarrow> dir" where
  "glob_sql d = filter (\<lambda>(name, content). is_sql name) d"

text \<open>Writing a file: a file of that name is replaced, a new one is added.\<close>

fun write_file :: "string \<Rightarrow> string \<Rightarrow> dir \<Rightarrow> dir" where
  "write_file name content [] = [(name, content)]"
| "write_file name content ((n, c) # d) =
     (if n = name then (name, content) # d else (n, c) # write_file name content d)"

section \<open>WorkflowStateManager\<close>

definition get_current_state :: "world \<Rightarrow> jvalue" where
  "get_current_state w =
     (case temp w of
        None \<Rightarrow> JStr ''NOT_STARTED''
      | Some t \<Rightarrow>
          (case state_file t of
             None \<Rightarrow> JStr ''NOT_STARTED''
           | Some Unparseable \<Rightarrow> JStr ''UNKNOWN''
           | Some (Parsed doc) \<Rightarrow>
               (case current_step doc of None \<Rightarrow> JStr ''UNKNOWN'' | Some v \<Rightarrow> v)))"

text \<open>
  \<open>update_state\<close> creates the directory of the state file when it is missing
  (\<open>mkdir(parents=True, exist_ok=True)\<close>) and writes the document. The time stamp
  \<open>datetime.now().isoformat()\<close> is the parameter \<open>now\<close>.
\<close>

definition update_state :: "string \<Rightarrow> string \<Rightarrow> (string \<times> detail) list \<Rightarrow> world \<Rightarrow> world" where
  "update_state now step dets w =
     (let t = (case temp w of None \<Rightarrow> empty_temp | Some t \<Rightarrow> t)
      in w\<lparr>temp := Some (t\<lparr>state_file :=
            Some (Parsed \<lparr>current_step = Some (JStr step), last_updated = now, details = dets\<rparr>)\<rparr>)\<rparr>)"

definition validate_state_transition :: "world \<Rightarrow> string \<Rightarrow> bool" where
  "validate_state_transition w expected_state = (get_current_state w = JStr expected_state)"

definition unlink_state_file :: "world \<Rightarrow> world" where
  "unlink_state_file w =
     (case temp w of None \<Rightarrow> w | Some t \<Rightarrow> w\<lparr>temp := Some (t\<lparr>state_file := None\<rparr>)\<rparr>)"

definition reset_workflow :: "string \<Rightarrow> world \<Rightarrow> world" where
  "reset_workflow now w = update_state now ''NOT_STARTED'' [] (unlink_state_file w)"

section \<open>SafeSchemaExtractor\<close>

text \<open>
  \<open>extract_schemas\<close> talks to the warehouse. Its outcome is a parameter: it raises, or it
  returns one result per schema, each naming the two files it wrote (\<open>None\<close> when the
  path does not exist) and the numbers of objects and grants it found.
\<close>

record extract_result =
  ddl_file :: "(string \<times> string) option"
  grant_file :: "(string \<times> string) option"
  object_count :: nat
  grant_count :: nat

datatype extract_outcome = ExtractRaised | Extracted "extract_result list"

record extractor =
  schema_name :: string
  database :: string
  output_root :: string

definition rmtree_temp :: "world \<Rightarrow> world" where
  "rmtree_temp w = w\<lparr>temp := None\<rparr>"

definition mkdir_opt :: "'a \<Rightarrow> 'a option \<Rightarrow> 'a option" where
  "mkdir_opt e d = (case d of None \<Rightarrow> Some e | Some x \<Rightarrow> Some x)"

definition make_temp_structure :: "world \<Rightarrow> world" where
  "make_temp_structure w =
     (let t = (case temp w of None \<Rightarrow> empty_temp | Some t \<Rightarrow> t)
      in w\<lparr>temp := Some (t\<lparr>raw := mkdir_opt [] (raw t), analysis := mkdir_opt None (analysis t),
            suggested := mkdir_opt [] (suggested t), final := mkdir_opt [] (final t)\<rparr>)\<rparr>)"

text \<open>The first part of \<open>extract_safe\<close>, up to the call of \<open>extract_schemas\<close>.\<close>

definition extract_reset :: "string \<Rightarrow> world \<Rightarrow> world" where
  "extract_reset now w = reset_workflow now (make_temp_structure (rmtree_temp w))"

definition move_to_raw :: "(string \<times> string) option \<Rightarrow> world \<Rightarrow> world" where
  "move_to_raw f w =
     (case f of
        None \<Rightarrow> w
      | Some (name, content) \<Rightarrow>
          (case temp w of
             None \<Rightarrow> w
           | Some t \<Rightarrow> w\<lparr>temp := Some (t\<lparr>raw :=
               Some (write_file name content (case raw t of None \<Rightarrow> [] | Some d \<Rightarrow> d))\<rparr>)\<rparr>))"

definition move_result :: "extract_result \<Rightarrow> world \<Rightarrow> world" where
  "move_result r w = move_to_raw (grant_file r) (move_to_raw (ddl_file r) w)"

definition raw_sql_files :: "world \<Rightarrow> dir" where
  "raw_sql_files w =
     (case temp w of None \<Rightarrow> [] | Some t \<Rightarrow> (case raw t of None \<Rightarrow> [] | Some d \<Rightarrow> glob_sql d))"

definition extraction_details :: "extractor \<Rightarrow> string \<Rightarrow> world \<Rightarrow> (string \<times> detail) list" where
  "extraction_details x now w =
     [(''extracted_at'', DStr now), (''database'', DStr (database x)),
      (''schema'', DStr (schema_name x)),
      (''files'', DStrs (map (\<lambda>(name, content).
          output_root x @ ''/'' @ schema_name x @ ''/temp/raw/'' @ name) (raw_sql_files w)))]"

definition extract_safe :: "extractor \<Rightarrow> string \<Rightarrow> extract_outcome \<Rightarrow> world \<Rightarrow> bool \<times> world" where
  "extract_safe x now outcome w =
     (let w1 = extract_reset now w in
      case outcome of
        ExtractRaised \<Rightarrow> (False, rmtree_temp w1)
      | Extracted results \<Rightarrow>
          (case results of
             [] \<Rightarrow> (False, rmtree_temp w1)
           | schema_result # rest \<Rightarrow>
               if object_count schema_result = 0 \<and> grant_count schema_result = 0
               then (False, rmtree_temp w1)
               else (let w2 = fold move_result results w1
                     in (True, update_state now ''EXTRACTION_COMPLETE''
                                 (extraction_details x now w2) w2))))"

section \<open>InteractiveReviewer\<close>

datatype error = RawDirNotFound | EOFError | FileNotFoundError

text \<open>
  \<open>analyze_schema_files()\<close> as the reviewer calls it, without a database base name: no
  suggestion is made, so no suggested file is written. It raises when \<open>raw\<close> is missing,
  and writes the report otherwise; \<open>written\<close> is that report.
\<close>

definition analyze_schema_files :: "report \<Rightarrow> world \<Rightarrow> error + world" where
  "analyze_schema_files written w =
     (case temp w of
        None \<Rightarrow> Inl RawDirNotFound
      | Some t \<Rightarrow>
          (case raw t of
             None \<Rightarrow> Inl RawDirNotFound
           | Some r \<Rightarrow> Inr (w\<lparr>temp := Some (t\<lparr>analysis := Some (Some written),
                                 suggested := mkdir_opt [] (suggested t)\<rparr>)\<rparr>)))"

definition analysis_file :: "world \<Rightarrow> report option" where
  "analysis_file w =
     (case temp w of None \<Rightarrow> None
      | Some t \<Rightarrow> (case analysis t of None \<Rightarrow> None | Some f \<Rightarrow> f))"

definition load_suggestions :: "world \<Rightarrow> suggestion list" where
  "load_suggestions w =
     (case temp w of
        None \<Rightarrow> []
      | Some t \<Rightarrow>
          (case suggested t of
             None \<Rightarrow> []
           | Some d \<Rightarrow> (case analysis_file w of None \<Rightarrow> [] | Some rep \<Rightarrow> rep)))"

text \<open>
  The prompt loop of \<open>_review_single_suggestion\<close>. \<open>answers\<close> are the lines the operator
  types; \<open>input()\<close> raises \<open>EOFError\<close> when there is none left. Help and an invalid
  choice ask again.
\<close>

fun read_choice :: "bool \<Rightarrow> string list \<Rightarrow> (string \<times> string list) option" where
  "read_choice safe [] = None"
| "read_choice safe (a # answers) =
     (let choice = lower (strip a) in
      if safe then
        (if choice \<in> set ['''', ''y'', ''yes''] then Some (''accept'', answers)
         else if choice \<in> set [''n'', ''no''] then Some (''reject'', answers)
         else if choice \<in> set [''q'', ''quit''] then Some (''quit'', answers)
         else read_choice safe answers)
      else
        (if choice \<in> set [''y'', ''yes''] then Some (''accept'', answers)
         else if choice \<in> set ['''', ''n'', ''no''] then Some (''reject'', answers)
         else if choice \<in> set [''q'', ''quit''] then Some (''quit'', answers)
         else read_choice safe answers))"

definition review_single_suggestion ::
    "string \<Rightarrow> nat \<Rightarrow> suggestion \<Rightarrow> string list \<Rightarrow> error + (decision \<times> string list)" where
  "review_single_suggestion now num s answers =
     (case read_choice (s_is_safe s) answers of
        None \<Rightarrow> Inl EOFError
      | Some (dec, answers1) \<Rightarrow>
          (let decision_record = \<lparr>suggestion_num = num, d_original = s_original s,
                 d_suggested = s_suggested s, d_context = s_context s, d_reason = s_reason s,
                 d_is_safe = s_is_safe s, d_risk_level = s_risk_level s, d_decision = dec,
                 reviewed_at = now, user_notes = ''''\<rparr>
           in if dec = ''reject'' then
                (case answers1 of
                   [] \<Rightarrow> Inl EOFError
                 | a # answers2 \<Rightarrow>
                     (let notes = strip a
                      in Inr (if notes \<noteq> [] then decision_record\<lparr>user_notes := notes\<rparr>
                              else decision_record, answers2)))
              else Inr (decision_record, answers1)))"

text \<open>
  The loop over the suggestions in \<open>start_review\<close>: \<open>Inr (False, ds)\<close> when the operator
  quit (\<open>ds\<close> are the decisions recorded so far, the quit included), \<open>Inr (True, ds)\<close>
  when every suggestion was decided.
\<close>

fun review_loop ::
    "string \<Rightarrow> nat \<Rightarrow> suggestion list \<Rightarrow> string list \<Rightarrow> decision list
       \<Rightarrow> error + (bool \<times> decision list)" where
  "review_loop now i [] answers decisions = Inr (True, decisions)"
| "review_loop now i (s # ss) answers decisions =
     (case review_single_suggestion now i s answers of
        Inl e \<Rightarrow> Inl e
      | Inr (d, answers1) \<Rightarrow>
          if d_decision d = ''quit'' then Inr (False, decisions @ [d])
          else review_loop now (Suc i) ss answers1 (decisions @ [d]))"

definition save_decisions :: "decision list \<Rightarrow> world \<Rightarrow> error + world" where
  "save_decisions ds w =
     (case temp w of
        None \<Rightarrow> Inl FileNotFoundError
      | Some t \<Rightarrow> Inr (w\<lparr>temp := Some (t\<lparr>decisions_file := Some (Parsed ds)\<rparr>)\<rparr>))"

definition review_details :: "string \<Rightarrow> decision list \<Rightarrow> (string \<times> detail) list" where
  "review_details now ds =
     [(''reviewed_at'', DStr now), (''total_suggestions'', DNat (length ds)),
      (''accepted'', DNat (length (filter (\<lambda>d. d_decision d = ''accept'') ds))),
      (''rejected'', DNat (length (filter (\<lambda>d. d_decision d = ''reject'') ds))),
      (''quit_early'', DBool (\<exists>d \<in> set ds. d_decision d = ''quit''))]"

definition complete_review :: "string \<Rightarrow> decision list \<Rightarrow> world \<Rightarrow> error + world" where
  "complete_review now ds w =
     (case save_decisions ds w of
        Inl e \<Rightarrow> Inl e
      | Inr w1 \<Rightarrow> Inr (update_state now ''REVIEW_COMPLETE'' (review_details now ds) w1))"

definition start_review :: "string \<Rightarrow> report \<Rightarrow> string list \<Rightarrow> world \<Rightarrow> (error + bool) \<times> world" where
  "start_review now written answers w =
     (if \<not> validate_state_transition w ''EXTRACTION_COMPLETE'' then (Inr False, w)
      else
        (case (if analysis_file w = None then analyze_schema_files written w else Inr w) of
           Inl e \<Rightarrow> (Inl e, w)
         | Inr w1 \<Rightarrow>
             if raw_sql_files w1 = [] then (Inr False, w1)
             else if analysis_file w1 = None then (Inr False, w1)
             else
               (let suggestions = load_suggestions w1 in
                if suggestions = [] then
                  (case complete_review now [] w1 of
                     Inl e \<Rightarrow> (Inl e, w1)
                   | Inr w2 \<Rightarrow> (Inr True, w2))
                else
                  (case review_loop now 1 suggestions answers [] of
                     Inl e \<Rightarrow> (Inl e, w1)
                   | Inr (False, ds) \<Rightarrow> (Inr False, w1)
                   | Inr (True, ds) \<Rightarrow>
                       (case complete_review now ds w1 of
                          Inl e \<Rightarrow> (Inl e, w1)
                        | Inr w2 \<Rightarrow> (Inr True, w2))))))"

section \<open>FinalVersionGenerator\<close>

text \<open>
  \<open>str(n)\<close> for a length. The characters of the source's literals that are not ASCII
  are given by their UTF-8 bytes.
\<close>

function show_nat :: "nat \<Rightarrow> string" where
  "show_nat n = (if n < 10 then [char_of (48 + n)]
                 else show_nat (n div 10) @ [char_of (48 + n mod 10)])"
  by pat_completeness auto

termination show_nat
  by (relation "measure (\<lambda>n. n)") auto

definition arrow :: string where
  "arrow = [CHR 0xE2, CHR 0x86, CHR 0x92]"

definition warning_sign :: string where
  "warning_sign = [CHR 0xE2, CHR 0x9A, CHR 0xA0, CHR 0xEF, CHR 0xB8, CHR 0x8F]"

record change =
  c_original :: string
  c_suggested :: string
  c_context :: string
  c_reason :: string

definition load_decisions :: "tempdir \<Rightarrow> decision list" where
  "load_decisions t =
     (case decisions_file t of
        None \<Rightarrow> []
      | Some Unparseable \<Rightarrow> []
      | Some (Parsed ds) \<Rightarrow> ds)"

definition mkdir_final :: "world \<Rightarrow> world" where
  "mkdir_final w =
     (let t = (case temp w of None \<Rightarrow> empty_temp | Some t \<Rightarrow> t)
      in w\<lparr>temp := Some (t\<lparr>final := mkdir_opt [] (final t)\<rparr>)\<rparr>)"

definition write_final :: "string \<Rightarrow> string \<Rightarrow> world \<Rightarrow> world" where
  "write_final name content w =
     (case temp w of
        None \<Rightarrow> w
      | Some t \<Rightarrow> w\<lparr>temp := Some (t\<lparr>final :=
          Some (write_file name content (case final t of None \<Rightarrow> [] | Some d \<Rightarrow> d))\<rparr>)\<rparr>)"

definition final_sql_names :: "world \<Rightarrow> string list" where
  "final_sql_names w =
     (case temp w of None \<Rightarrow> []
      | Some t \<Rightarrow> (case final t of None \<Rightarrow> [] | Some d \<Rightarrow> map fst (glob_sql d)))"

definition header_without_decisions :: "string \<Rightarrow> string \<Rightarrow> string" where
  "header_without_decisions schema now =
     ''-- FINAL VERSION: '' @ schema @ '' Schema\<newline>'' @
     ''-- Generated at: '' @ now @ ''\<newline>'' @
     ''-- Note: No templating decisions were made - using raw extraction\<newline>'' @
     ''-- '' @ warning_sign @ ''  This version may contain environment-specific references\<newline>'' @
     ''\<newline>''"

definition generate_final_without_decisions :: "string \<Rightarrow> string \<Rightarrow> world \<Rightarrow> world" where
  "generate_final_without_decisions schema now w =
     (let w1 = mkdir_final w;
          w2 = fold (\<lambda>(name, content). write_final name (header_without_decisions schema now @ content))
                 (raw_sql_files w1) w1
      in update_state now ''FINAL_GENERATED''
           [(''generated_at'', DStr now), (''method'', DStr ''no_decisions''),
            (''files_generated'', DStrs (final_sql_names w2))] w2)"

text \<open>
  \<open>_group_decisions_by_file\<close>: every decision is appended to the list of every SQL file
  of \<open>raw\<close>.
\<close>

definition add_decision :: "decision \<Rightarrow> string \<Rightarrow> (string \<rightharpoonup> decision list) \<Rightarrow> (string \<rightharpoonup> decision list)" where
  "add_decision d file_name file_decisions =
     file_decisions(file_name \<mapsto>
       (case file_decisions file_name of None \<Rightarrow> [] | Some ds \<Rightarrow> ds) @ [d])"

definition group_decisions_by_file :: "decision list \<Rightarrow> dir \<Rightarrow> (string \<rightharpoonup> decision list)" where
  "group_decisions_by_file decisions sql_files =
     fold (\<lambda>d. fold (\<lambda>(file_name, content). add_decision d file_name) sql_files)
          decisions Map.empty"

text \<open>
  The inner loop of \<open>_generate_final_with_decisions\<close> over the decisions of one file:
  the content and the list of applied changes after each decision.
\<close>

fun apply_decisions :: "decision list \<Rightarrow> string \<times> change list \<Rightarrow> string \<times> change list" where
  "apply_decisions [] (content, applied_changes) = (content, applied_changes)"
| "apply_decisions (d # ds) (content, applied_changes) =
     (if d_decision d = ''accept'' then
        (let content1 = replace content (d_original d) (d_suggested d);
             new_count = count_str content1 (d_suggested d)
         in apply_decisions ds (content1,
              if new_count > 0
              then applied_changes @ [\<lparr>c_original = d_original d, c_suggested = d_suggested d,
                     c_context = d_context d, c_reason = d_reason d\<rparr>]
              else applied_changes))
      else apply_decisions ds (content, applied_changes))"

fun header_changes :: "nat \<Rightarrow> change list \<Rightarrow> string" where
  "header_changes i [] = ''''"
| "header_changes i (c # cs) =
     ''-- '' @ show_nat i @ ''. '' @ c_original c @ '' '' @ arrow @ '' '' @ c_suggested c @ ''\<newline>'' @
     ''--    Context: '' @ c_context c @ ''\<newline>'' @
     ''--    Reason: '' @ c_reason c @ ''\<newline>'' @
     header_changes (Suc i) cs"

definition generate_final_header :: "string \<Rightarrow> string \<Rightarrow> string \<Rightarrow> change list \<Rightarrow> string" where
  "generate_final_header schema now file_name applied_changes =
     ''-- FINAL VERSION: '' @ schema @ '' Schema\<newline>'' @
     ''-- File: '' @ file_name @ ''\<newline>'' @
     ''-- Generated at: '' @ now @ ''\<newline>'' @
     ''-- Based on: '' @ show_nat (length applied_changes) @ '' templating decisions\<newline>'' @
     ''\<newline>'' @
     (if applied_changes \<noteq> []
      then ''-- APPLIED TEMPLATING CHANGES:\<newline>'' @ header_changes 1 applied_changes @ ''\<newline>''
      else ''-- No templating changes applied - using raw extraction\<newline>\<newline>'') @
     ''-- ==========================================\<newline>'' @
     ''-- SCHEMA CONTENT BELOW\<newline>'' @
     ''-- ==========================================\<newline>\<newline>''"

definition final_text ::
    "string \<Rightarrow> string \<Rightarrow> (string \<rightharpoonup> decision list) \<Rightarrow> string \<Rightarrow> string \<Rightarrow> string" where
  "final_text schema now file_decisions file_name content =
     (let (content1, applied_changes) =
            (case file_decisions file_name of
               None \<Rightarrow> (content, [])
             | Some ds \<Rightarrow> apply_decisions ds (content, []))
      in generate_final_header schema now file_name applied_changes @ content1)"

definition generate_final_with_decisions ::
    "string \<Rightarrow> string \<Rightarrow> decision list \<Rightarrow> world \<Rightarrow> world" where
  "generate_final_with_decisions schema now decisions w =
     (let w1 = mkdir_final w;
          file_decisions = group_decisions_by_file decisions (raw_sql_files w1);
          w2 = fold (\<lambda>(file_name, content).
                       write_final file_name (final_text schema now file_decisions file_name content))
                 (raw_sql_files w1) w1
      in update_state now ''FINAL_GENERATED''
           [(''generated_at'', DStr now), (''method'', DStr ''with_decisions''),
            (''total_decisions'', DNat (length decisions)),
            (''accepted_decisions'', DNat (length (filter (\<lambda>d. d_decision d = ''accept'') decisions))),
            (''files_generated'', DStrs (final_sql_names w2))] w2)"

definition generate_final_version :: "string \<Rightarrow> string \<Rightarrow> world \<Rightarrow> bool \<times> world" where
  "generate_final_version schema now w =
     (if \<not> validate_state_transition w ''REVIEW_COMPLETE'' then (False, w)
      else
        (case temp w of
           None \<Rightarrow> (False, w)
         | Some t \<Rightarrow>
             if raw t = None \<or> decisions_file t = None then (False, w)
             else
               (let decisions = load_decisions t in
                if decisions = [] then (True, generate_final_without_decisions schema now w)
                else (True, generate_final_with_decisions schema now decisions w))))"

section \<open>CommitManager\<close>

definition perform_commit :: "string \<Rightarrow> dir \<Rightarrow> world \<Rightarrow> bool \<times> world" where
  "perform_commit now final_files w =
     (let w1 = fold (\<lambda>(name, content) v.
                       v\<lparr>main_schema_dir := write_file name content (main_schema_dir v)\<rparr>)
                 final_files w
      in (True, update_state now ''COMMITTED''
                  [(''committed_at'', DStr now),
                   (''committed_files'', DStrs (map fst final_files))] w1))"

definition commit_schema :: "string \<Rightarrow> bool \<Rightarrow> world \<Rightarrow> bool \<times> world" where
  "commit_schema now dry_run w =
     (if \<not> validate_state_transition w ''FINAL_GENERATED'' then (False, w)
      else
        (case temp w of
           None \<Rightarrow> (False, w)
         | Some t \<Rightarrow>
             (case final t of
                None \<Rightarrow> (False, w)
              | Some d \<Rightarrow>
                  (let final_files = glob_sql d in
                   if final_files = [] then (False, w)
                   else if dry_run then (True, w)
                   else perform_commit now final_files w))))"

definition decisions_file_of :: "world \<Rightarrow> decision list json_file option" where
  "decisions_file_of w = (case temp w of None \<Rightarrow> None | Some t \<Rightarrow> decisions_file t)"

text \<open>
  The operator answered quit: the state was valid, the session reached the prompts, and
  the loop over the suggestions ended at a quit.
\<close>

definition operator_quit :: "string \<Rightarrow> report \<Rightarrow> string list \<Rightarrow> world \<Rightarrow> bool" where
  "operator_quit now written answers w =
     (validate_state_transition w ''EXTRACTION_COMPLETE'' \<and>
      (case (if analysis_file w = None then analyze_schema_files written w else Inr w) of
         Inl e \<Rightarrow> False
       | Inr w1 \<Rightarrow>
           raw_sql_files w1 \<noteq> [] \<and> analysis_file w1 \<noteq> None \<and> load_suggestions w1 \<noteq> [] \<and>
           (case review_loop now 1 (load_suggestions w1) answers [] of
              Inl e \<Rightarrow> False
            | Inr (completed, ds) \<Rightarrow> \<not> completed)))"

text \<open>
  What the specification says of the generator, to compare with the code: the accepted
  decisions, in their order, each a literal replacement of the original by the suggested
  text, whatever the file.
\<close>

definition spec_apply_accepted :: "decision list \<Rightarrow> string \<Rightarrow> string" where
  "spec_apply_accepted ds content =
     fold (\<lambda>d c. replace c (d_original d) (d_suggested d))
          (filter (\<lambda>d. d_decision d = ''accept'') ds) content"

text \<open>The content of a file of \<open>final\<close>, and the header the generator puts before the text.\<close>

definition final_file :: "world \<Rightarrow> string \<Rightarrow> string option" where
  "final_file w name =
     (case temp w of None \<Rightarrow> None
      | Some t \<Rightarrow> (case final t of None \<Rightarrow> None | Some d \<Rightarrow> map_of d name))"

definition final_header :: "string \<Rightarrow> string \<Rightarrow> decision list \<Rightarrow> string \<Rightarrow> string \<Rightarrow> string" where
  "final_header schema now ds name content =
     (if ds = [] then header_without_decisions schema now
      else generate_final_header schema now name (snd (apply_decisions ds (content, []))))"

section \<open>TemplatingAnalyzer\<close>

text \<open>
  The regular expressions of \<open>_is_safe_to_template\<close> are keywords, \<open>\s+\<close> and the escaped
  text of the match, searched with \<open>re.IGNORECASE\<close>. \<open>match_ci\<close> matches a literal
  without regard to case; \<open>ws_then P\<close> is \<open>\s+\<close> followed by what \<open>P\<close> accepts, for any
  number of white-space characters taken; \<open>re_search P\<close> tries every position.
\<close>

fun match_ci :: "string \<Rightarrow> string \<Rightarrow> string option" where
  "match_ci [] s = Some s"
| "match_ci (p # ps) [] = None"
| "match_ci (p # ps) (c # cs) = (if to_lower p = to_lower c then match_ci ps cs else None)"

fun ws_then :: "(string \<Rightarrow> bool) \<Rightarrow> string \<Rightarrow> bool" where
  "ws_then P [] = False"
| "ws_then P (c # cs) = (is_space c \<and> (P cs \<or> ws_then P cs))"

fun re_search :: "(string \<Rightarrow> bool) \<Rightarrow> string \<Rightarrow> bool" where
  "re_search P [] = P []"
| "re_search P (c # cs) = (P (c # cs) \<or> re_search P cs)"

text \<open>\<open>KW\s+text\<close> and \<open>KW1\s+KW2\s+text\<close> at the start of a string.\<close>

definition kw_text :: "string \<Rightarrow> string \<Rightarrow> string \<Rightarrow> bool" where
  "kw_text kw text s =
     (case match_ci kw s of
        None \<Rightarrow> False
      | Some rest \<Rightarrow> ws_then (\<lambda>r. match_ci text r \<noteq> None) rest)"

definition kw2_text :: "string \<Rightarrow> string \<Rightarrow> string \<Rightarrow> string \<Rightarrow> bool" where
  "kw2_text kw1 kw2 text s =
     (case match_ci kw1 s of
        None \<Rightarrow> False
      | Some rest \<Rightarrow> ws_then (kw_text kw2 text) rest)"

definition from_join_patterns :: "string \<Rightarrow> (string \<Rightarrow> bool) list" where
  "from_join_patterns match_text =
     [kw_text ''FROM'' match_text, kw_text ''JOIN'' match_text,
      kw_text ''UPDATE'' match_text, kw2_text ''DELETE'' ''FROM'' match_text]"

definition table_column_patterns :: "string \<Rightarrow> (string \<Rightarrow> bool) list" where
  "table_column_patterns match_text =
     [kw2_text ''CREATE'' ''TABLE'' match_text, kw2_text ''CREATE'' ''VIEW'' match_text,
      kw2_text ''ALTER'' ''TABLE'' match_text, kw2_text ''DROP'' ''TABLE'' match_text]"

text \<open>
  \<open>_is_in_string_literal\<close>: the quotes before the position, less the escaped ones, counted
  for each kind of quote; an odd number of either means inside a string.
\<close>

definition is_in_string_literal :: "string \<Rightarrow> nat \<Rightarrow> nat \<Rightarrow> bool" where
  "is_in_string_literal content start end =
     (let before_match = take start content;
          single_quotes_before = int (count_str before_match [CHR 0x27])
                                 - int (count_str before_match [CHR 0x5C, CHR 0x27]);
          double_quotes_before = int (count_str before_match [CHR 0x22])
                                 - int (count_str before_match [CHR 0x5C, CHR 0x22])
      in single_quotes_before mod 2 = 1 \<or> double_quotes_before mod 2 = 1)"

definition is_safe_to_template ::
    "string \<Rightarrow> string \<Rightarrow> string \<Rightarrow> nat \<Rightarrow> nat \<Rightarrow> bool \<times> string" where
  "is_safe_to_template match_text context full_content start end =
     (if list_ex (\<lambda>pattern. re_search pattern context) (from_join_patterns match_text)
      then (True, ''Database reference in FROM/JOIN clause - safe to template'')
      else if list_ex (\<lambda>pattern. re_search pattern context) (table_column_patterns match_text)
      then (False, ''Database reference in table/view name - do not template'')
      else if is_in_string_literal full_content start end
      then (False, ''Database reference in string literal - do not template'')
      else (False, ''Unclear context - review manually''))"

text \<open>
  \<open>_analyze_database_reference\<close>: the context is the text from 50 characters before the
  match to 50 characters after it.
\<close>

definition context_window :: "string \<Rightarrow> nat \<Rightarrow> nat \<Rightarrow> string" where
  "context_window content start end =
     (let context_start = start - 50;
          context_end = min (length content) (end + 50)
      in drop context_start (take context_end content))"

definition analyze_database_reference :: "string \<Rightarrow> nat \<Rightarrow> nat \<Rightarrow> string \<Rightarrow> suggestion" where
  "analyze_database_reference match_text start end content =
     (let context = context_window content start end;
          (is_safe, reason) = is_safe_to_template match_text context content start end
      in \<lparr>s_original = match_text, s_suggested = ''{{DB_BASE}}_{{ENV}}'', s_is_safe = is_safe,
          s_context = strip context, s_reason = reason,
          s_risk_level = (if is_safe then ''LOW'' else ''MEDIUM'')\<rparr>)"

section \<open>compare\_schema\<close>

subsection \<open>Regular-expression substitution\<close>

text \<open>
  \<open>re.sub\<close> for a pattern that never matches the empty string. \<open>m s\<close> says whether the
  pattern matches at the start of \<open>s\<close>, and then gives the replacement of the match and
  the text after it. The text is scanned from the left: at a match the replacement is
  put and the scan goes on after the match, otherwise the character is kept.
\<close>

function re_sub :: "(string \<Rightarrow> (string \<times> string) option) \<Rightarrow> string \<Rightarrow> string" where
  "re_sub m [] = []"
| "re_sub m (c # cs) =
     (case m (c # cs) of
        None \<Rightarrow> c # re_sub m cs
      | Some (rep, rest) \<Rightarrow>
          if length rest \<le> length cs then rep @ re_sub m rest else c # re_sub m cs)"
  by pat_completeness auto

termination re_sub
  by (relation "measure (\<lambda>(m, s). length s)") auto

text \<open>\<open>--.*$\<close> with \<open>re.MULTILINE\<close>, replaced by nothing: a comment up to the end of its line.\<close>

definition m_comment :: "string \<Rightarrow> (string \<times> string) option" where
  "m_comment s =
     (case s of
        c1 # c2 # r \<Rightarrow>
          if c1 = CHR ''-'' \<and> c2 = CHR ''-'' then Some ([], dropWhile (\<lambda>c. c \<noteq> CHR 0x0A) r)
          else None
      | _ \<Rightarrow> None)"

text \<open>\<open>\s+\<close>, replaced by one space.\<close>

definition m_spaces :: "string \<Rightarrow> (string \<times> string) option" where
  "m_spaces s =
     (case s of
        c # r \<Rightarrow> if is_space c then Some ('' '', dropWhile is_space r) else None
      | [] \<Rightarrow> None)"

text \<open>
  \<open>\s*(P)\s*\<close>, replaced by the character of the group, for \<open>[(),;]\<close>, for the comma and
  for \<open>=\<close>.
\<close>

definition m_around :: "(char \<Rightarrow> bool) \<Rightarrow> string \<Rightarrow> (string \<times> string) option" where
  "m_around P s =
     (case dropWhile is_space s of
        p # r \<Rightarrow> if P p then Some ([p], dropWhile is_space r) else None
      | [] \<Rightarrow> None)"

definition is_punct :: "char \<Rightarrow> bool" where
  "is_punct c = (c \<in> set ''(),;'')"

definition is_comma :: "char \<Rightarrow> bool" where
  "is_comma c = (c = CHR '','')"

definition is_equals :: "char \<Rightarrow> bool" where
  "is_equals c = (c = CHR ''='')"

text \<open>\<open>;\s*$\<close>, replaced by nothing: a semicolon with only white space after it.\<close>

definition m_semi :: "string \<Rightarrow> (string \<times> string) option" where
  "m_semi s =
     (case s of
        c # r \<Rightarrow> if c = CHR '';'' \<and> list_all is_space r then Some ([], []) else None
      | [] \<Rightarrow> None)"

text \<open>
  The template variable \<open>{{ VAR("ENV") }}\<close>, with optional white space between its parts
  and either kind of quote, replaced by \<open>SIT\<close>.
\<close>

definition ws_lit :: "string \<Rightarrow> string \<Rightarrow> string option" where
  "ws_lit p s = match_lit p (dropWhile is_space s)"

definition is_quote :: "char \<Rightarrow> bool" where
  "is_quote c = (c = CHR 0x22 \<or> c = CHR 0x27)"

definition m_quote :: "string \<Rightarrow> string option" where
  "m_quote s = (case s of q # r \<Rightarrow> if is_quote q then Some r else None | [] \<Rightarrow> None)"

definition ws_quote :: "string \<Rightarrow> string option" where
  "ws_quote s = m_quote (dropWhile is_space s)"

definition match_template :: "string \<Rightarrow> string option" where
  "match_template s =
     Option.bind (match_lit ''{{'' s) (\<lambda>r1.
     Option.bind (ws_lit ''VAR'' r1) (\<lambda>r2.
     Option.bind (ws_lit ''('' r2) (\<lambda>r3.
     Option.bind (ws_quote r3) (\<lambda>r4.
     Option.bind (match_lit ''ENV'' r4) (\<lambda>r5.
     Option.bind (m_quote r5) (\<lambda>r6.
     Option.bind (ws_lit '')'' r6) (\<lambda>r7.
     ws_lit ''}}'' r7)))))))"

definition m_template :: "string \<Rightarrow> (string \<times> string) option" where
  "m_template s = map_option (\<lambda>rest. (''SIT'', rest)) (match_template s)"

text \<open>\<open>q([^q]+)q\<close> and \<open>IDENTIFIER\(q([^q]+)q\)\<close>, replaced by the group.\<close>

definition m_quoted :: "char \<Rightarrow> string \<Rightarrow> (string \<times> string) option" where
  "m_quoted q s =
     (case s of
        c # r \<Rightarrow>
          if c = q then
            (case dropWhile (\<lambda>x. x \<noteq> q) r of
               q' # rest \<Rightarrow>
                 if takeWhile (\<lambda>x. x \<noteq> q) r \<noteq> [] then Some (takeWhile (\<lambda>x. x \<noteq> q) r, rest)
                 else None
             | [] \<Rightarrow> None)
          else None
      | [] \<Rightarrow> None)"

definition m_identifier :: "char \<Rightarrow> string \<Rightarrow> (string \<times> string) option" where
  "m_identifier q s =
     (case match_lit ''IDENTIFIER('' s of
        None \<Rightarrow> None
      | Some r \<Rightarrow>
          (case m_quoted q r of
             None \<Rightarrow> None
           | Some (inner, rest) \<Rightarrow>
               (case rest of
                  c # rest' \<Rightarrow> if c = CHR '')'' then Some (inner, rest') else None
                | [] \<Rightarrow> None)))"

subsection \<open>normalize\_ddl and normalize\_grant\<close>

definition normalize_ddl :: "string \<Rightarrow> string" where
  "normalize_ddl ddl_text =
     (if ddl_text = [] then []
      else
        (let normalized = strip (upper ddl_text);
             normalized = re_sub m_comment normalized;
             normalized = re_sub m_spaces normalized;
             normalized = re_sub (m_around is_punct) normalized;
             normalized = re_sub (m_around is_comma) normalized;
             normalized = re_sub (m_around is_equals) normalized;
             normalized = re_sub m_semi normalized;
             normalized = re_sub m_template normalized
         in strip normalized))"

definition normalize_grant :: "string \<Rightarrow> string" where
  "normalize_grant grant_statement =
     (let normalized = strip (upper grant_statement);
          normalized = re_sub (m_identifier (CHR 0x27)) normalized;
          normalized = re_sub (m_identifier (CHR 0x22)) normalized;
          normalized = re_sub m_spaces normalized;
          normalized = re_sub (m_quoted (CHR 0x27)) normalized;
          normalized = re_sub (m_quoted (CHR 0x22)) normalized
      in strip normalized)"

subsection \<open>compare\_objects and compare\_grants\<close>

text \<open>
  A Python dict is the list of its items, with \<open>map_of\<close> for the lookup; \<open>sorted\<close> on a
  set of strings is the sorted list of its elements without repetition.
\<close>

type_synonym objects = "(string \<times> string) list"

record object_changes =
  o_new :: "string list"
  o_modified :: "string list"
  o_removed :: "string list"
  o_unchanged :: "string list"

definition get_or_empty :: "objects \<Rightarrow> string \<Rightarrow> string" where
  "get_or_empty d k = (case map_of d k of None \<Rightarrow> [] | Some v \<Rightarrow> v)"

definition all_objects :: "objects \<Rightarrow> objects \<Rightarrow> string list" where
  "all_objects current_objects proposed_objects =
     sort (remdups (map fst current_objects @ map fst proposed_objects))"

definition classify_object :: "objects \<Rightarrow> objects \<Rightarrow> string \<Rightarrow> object_changes \<Rightarrow> object_changes" where
  "classify_object current_objects proposed_objects obj_key changes =
     (let current_ddl = strip (get_or_empty current_objects obj_key);
          proposed_ddl = strip (get_or_empty proposed_objects obj_key);
          current_normalized = normalize_ddl current_ddl;
          proposed_normalized = normalize_ddl proposed_ddl
      in if current_normalized = [] \<and> proposed_normalized \<noteq> []
         then changes\<lparr>o_new := o_new changes @ [obj_key]\<rparr>
         else if current_normalized \<noteq> [] \<and> proposed_normalized = []
         then changes\<lparr>o_removed := o_removed changes @ [obj_key]\<rparr>
         else if current_normalized \<noteq> proposed_normalized
         then changes\<lparr>o_modified := o_modified changes @ [obj_key]\<rparr>
         else changes\<lparr>o_unchanged := o_unchanged changes @ [obj_key]\<rparr>)"

definition compare_objects :: "objects \<Rightarrow> objects \<Rightarrow> object_changes" where
  "compare_objects current_objects proposed_objects =
     fold (classify_object current_objects proposed_objects)
          (all_objects current_objects proposed_objects)
          \<lparr>o_new = [], o_modified = [], o_removed = [], o_unchanged = []\<rparr>"

record grant_changes =
  g_new :: "string set"
  g_removed :: "string set"
  g_unchanged :: "string set"

definition compare_grants :: "string list \<Rightarrow> string list \<Rightarrow> grant_changes" where
  "compare_grants current_grants proposed_grants =
     (let current_set = normalize_grant ` set current_grants;
          proposed_set = normalize_grant ` set proposed_grants
      in \<lparr>g_new = proposed_set - current_set,
          g_removed = current_set - proposed_set,
          g_unchanged = current_set \<inter> proposed_set\<rparr>)"

subsection \<open>main\<close>







text \<open>
  The normalized DDL of a key in a mapping, as \<open>compare_objects\<close> computes it: the empty
  text for a key that is absent. \<open>every_ddl_nonempty\<close>: no DDL of the mapping is empty
  after normalization.
\<close>

definition normalized_lookup :: "objects \<Rightarrow> string \<Rightarrow> string" where
  "normalized_lookup d k = normalize_ddl (strip (get_or_empty d k))"

definition every_ddl_nonempty :: "objects \<Rightarrow> bool" where
  "every_ddl_nonempty d = list_all (\<lambda>(k, v). normalize_ddl (strip v) \<noteq> []) d"

section \<open>Example worlds\<close>

definition no_workflow :: world where
  "no_workflow = \<lparr>temp = None, main_schema_dir = []\<rparr>"

definition fresh_temp :: "string \<Rightarrow> tempdir" where
  "fresh_temp now = \<lparr>raw = Some [], analysis = Some None, suggested = Some [], final = Some [],
     decisions_file = None,
     state_file = Some (Parsed \<lparr>current_step = Some (JStr ''NOT_STARTED''), last_updated = now,
                                details = []\<rparr>)\<rparr>"

definition state_file_of :: "world \<Rightarrow> state_doc json_file option" where
  "state_file_of w = (case temp w of None \<Rightarrow> None | Some t \<Rightarrow> state_file t)"

text \<open>A state file that cannot be parsed, or that has no \<open>current_step\<close>.\<close>

definition corrupt_state_file :: "world \<Rightarrow> bool" where
  "corrupt_state_file w =
     (case state_file_of w of
        None \<Rightarrow> False
      | Some Unparseable \<Rightarrow> True
      | Some (Parsed doc) \<Rightarrow> current_step doc = None)"

definition committed_world :: world where
  "committed_world =
     \<lparr>temp = Some \<lparr>raw = Some [(''V1000__baseline_from_PLATFORM_SIT.sql'', ''CREATE TABLE A (X INT);'')],
        analysis = Some (Some []), suggested = Some [],
        final = Some [(''V1000__baseline_from_PLATFORM_SIT.sql'', ''CREATE TABLE A (X INT);'')],
        decisions_file = Some (Parsed []),
        state_file = Some (Parsed \<lparr>current_step = Some (JStr ''COMMITTED''),
                                   last_updated = ''t0'', details = []\<rparr>)\<rparr>,
      main_schema_dir = [(''V1000__baseline_from_PLATFORM_SIT.sql'', ''CREATE TABLE A (X INT);'')]\<rparr>"

definition corrupt_world :: world where
  "corrupt_world =
     \<lparr>temp = Some \<lparr>raw = Some [(''V1000__baseline_from_PLATFORM_SIT.sql'', ''CREATE TABLE A (X INT);'')],
        analysis = Some None, suggested = Some [], final = Some [],
        decisions_file = None, state_file = Some Unparseable\<rparr>,
      main_schema_dir = []\<rparr>"

definition one_table_result :: extract_result where
  "one_table_result =
     \<lparr>ddl_file = Some (''V1000__baseline_from_PLATFORM_SIT.sql'', ''CREATE TABLE B (Y INT);''),
      grant_file = Some (''V1001__grants_from_PLATFORM_SIT.sql'', ''-- No grants found for schema''),
      object_count = 1, grant_count = 0\<rparr>"

definition reporting :: extractor where
  "reporting = \<lparr>schema_name = ''REPORTING'', database = ''PLATFORM_SIT'', output_root = ''schemas''\<rparr>"

definition ghost :: extractor where
  "ghost = \<lparr>schema_name = ''GHOST'', database = ''PLATFORM_SIT'', output_root = ''schemas''\<rparr>"

definition ghost_result :: extract_result where
  "ghost_result =
     \<lparr>ddl_file = Some (''V1000__baseline_from_PLATFORM_SIT.sql'', ''-- No objects found in schema''),
      grant_file = Some (''V1001__grants_from_PLATFORM_SIT.sql'', ''-- No grants found for schema''),
      object_count = 0, grant_count = 0\<rparr>"

definition table_suggestion :: suggestion where
  "table_suggestion = \<lparr>s_original = ''PLATFORM_SIT'', s_suggested = ''{{DB_BASE}}_{{ENV}}'',
     s_is_safe = True, s_context = ''SELECT * FROM PLATFORM_SIT.FOO.BAR'',
     s_reason = ''Database reference in FROM/JOIN clause - safe to template'',
     s_risk_level = ''LOW''\<rparr>"

definition view_suggestion :: suggestion where
  "view_suggestion = \<lparr>s_original = ''PLATFORM_QA'', s_suggested = ''{{DB_BASE}}_{{ENV}}'',
     s_is_safe = False, s_context = ''CREATE VIEW PLATFORM_QA.V'',
     s_reason = ''Database reference in table/view name - do not template'',
     s_risk_level = ''MEDIUM''\<rparr>"

definition reviewing_world :: world where
  "reviewing_world =
     \<lparr>temp = Some \<lparr>raw = Some [(''V1000__baseline_from_PLATFORM_SIT.sql'', ''SELECT * FROM PLATFORM_SIT.FOO.BAR;'')],
        analysis = Some (Some [table_suggestion, view_suggestion]), suggested = Some [], final = Some [],
        decisions_file = None,
        state_file = Some (Parsed \<lparr>current_step = Some (JStr ''EXTRACTION_COMPLETE''),
                                   last_updated = ''t0'', details = []\<rparr>)\<rparr>,
      main_schema_dir = []\<rparr>"

definition accept_first :: decision where
  "accept_first = \<lparr>suggestion_num = 1, d_original = ''PLATFORM_SIT'',
     d_suggested = ''{{DB_BASE}}_{{ENV}}'', d_context = ''SELECT * FROM PLATFORM_SIT.FOO.BAR'',
     d_reason = ''Database reference in FROM/JOIN clause - safe to template'',
     d_is_safe = True, d_risk_level = ''LOW'', d_decision = ''accept'', reviewed_at = ''t1'',
     user_notes = ''''\<rparr>"

definition quit_second :: decision where
  "quit_second = \<lparr>suggestion_num = 2, d_original = ''PLATFORM_QA'',
     d_suggested = ''{{DB_BASE}}_{{ENV}}'', d_context = ''CREATE VIEW PLATFORM_QA.V'',
     d_reason = ''Database reference in table/view name - do not template'',
     d_is_safe = False, d_risk_level = ''MEDIUM'', d_decision = ''quit'', reviewed_at = ''t1'',
     user_notes = ''''\<rparr>"

definition reject_view :: decision where
  "reject_view = \<lparr>suggestion_num = 2, d_original = ''PLATFORM_QA'',
     d_suggested = ''{{DB_BASE}}_{{ENV}}'', d_context = ''CREATE VIEW PLATFORM_QA.V'',
     d_reason = ''Database reference in table/view name - do not template'',
     d_is_safe = False, d_risk_level = ''MEDIUM'', d_decision = ''reject'', reviewed_at = ''t1'',
     user_notes = ''''\<rparr>"

definition reviewed_temp :: tempdir where
  "reviewed_temp =
     \<lparr>raw = Some [(''V1000__baseline_from_PLATFORM_SIT.sql'', ''SELECT * FROM PLATFORM_SIT.FOO.BAR;''),
                  (''V1001__grants_from_PLATFORM_SIT.sql'',
                   ''GRANT USAGE ON DATABASE PLATFORM_SIT TO ROLE PLATFORM_QA_R;'')],
      analysis = Some (Some []), suggested = Some [], final = Some [],
      decisions_file = Some (Parsed [accept_first, reject_view]),
      state_file = Some (Parsed \<lparr>current_step = Some (JStr ''REVIEW_COMPLETE''),
                                 last_updated = ''t1'', details = []\<rparr>)\<rparr>"

definition reviewed_world :: world where
  "reviewed_world = \<lparr>temp = Some reviewed_temp, main_schema_dir = []\<rparr>"

definition failed_fetch_current :: objects where
  "failed_fetch_current = [(''TABLE:A'', ''-- ERROR: connection lost'')]"

definition one_table_proposed :: objects where
  "one_table_proposed = [(''TABLE:A'', ''CREATE TABLE A (X INT)'')]"

definition one_table_current :: objects where
  "one_table_current = [(''TABLE:A'', ''create table a ( x int ) ;'')]"

definition new_view_proposed :: objects where
  "new_view_proposed =
     [(''VIEW:V'', ''CREATE VIEW V AS SELECT 1''), (''TABLE:A'', ''CREATE TABLE A (X INT)'')]"



definition create_view_ddl :: string where
  "create_view_ddl = ''CREATE VIEW PLATFORM_SIT.S.V AS SELECT * FROM PLATFORM_SIT.S.T''"

definition string_literal_sql :: string where
  "string_literal_sql = ''SELECT 'PLATFORM_SIT' FROM PLATFORM_SIT.S.T''"



section \<open>Properties of the workflow\<close>

lemma validate_fail:
  "get_current_state w \<noteq> JStr s \<Longrightarrow> \<not> validate_state_transition w s"
  by (simp add: validate_state_transition_def)

text \<open>
  C1. Each of the three gated operations, review (precondition \<open>EXTRACTION_COMPLETE\<close>),
  generate (precondition \<open>REVIEW_COMPLETE\<close>) and commit (precondition
  \<open>FINAL_GENERATED\<close>), fails when the persisted state differs from its precondition, and
  leaves the state file and every workflow file as they were: the world it returns is the
  world it was given.
\<close>

theorem gated_operations_fail_unchanged:
  "(get_current_state w \<noteq> JStr ''EXTRACTION_COMPLETE'' \<longrightarrow>
      start_review now written answers w = (Inr False, w)) \<and>
   (get_current_state w \<noteq> JStr ''REVIEW_COMPLETE'' \<longrightarrow>
      generate_final_version schema now w = (False, w)) \<and>
   (get_current_state w \<noteq> JStr ''FINAL_GENERATED'' \<longrightarrow>
      commit_schema now dry_run w = (False, w))"
  by (simp add: start_review_def generate_final_version_def commit_schema_def validate_fail)

text \<open>
  Without any workflow directory the state reads \<open>NOT_STARTED\<close>; review, generate and
  commit fail, and review creates no decisions file (no directory at all).
\<close>

theorem gated_operations_fail_unchanged_witness:
  "get_current_state no_workflow = JStr ''NOT_STARTED'' \<and>
   start_review ''t'' [] [''y''] no_workflow = (Inr False, no_workflow) \<and>
   generate_final_version ''S'' ''t'' no_workflow = (False, no_workflow) \<and>
   commit_schema ''t'' False no_workflow = (False, no_workflow) \<and>
   temp (snd (start_review ''t'' [] [''y''] no_workflow)) = None"
  using gated_operations_fail_unchanged [of no_workflow "''t''" "[]" "[''y'']" "''S''" False]
  by (simp add: get_current_state_def no_workflow_def)

lemma extract_reset_eq:
  "extract_reset now w = w\<lparr>temp := Some (fresh_temp now)\<rparr>"
  by (simp add: extract_reset_def reset_workflow_def update_state_def unlink_state_file_def
      make_temp_structure_def rmtree_temp_def empty_temp_def mkdir_opt_def fresh_temp_def)

lemma get_current_state_update [simp]:
  "get_current_state (update_state now step dets w) = JStr step"
  by (simp add: get_current_state_def update_state_def Let_def)

lemma state_fresh: "get_current_state (w\<lparr>temp := Some (fresh_temp now)\<rparr>) = JStr ''NOT_STARTED''"
  by (simp add: get_current_state_def fresh_temp_def)

lemma extract_safe_success:
  "object_count r \<noteq> 0 \<or> grant_count r \<noteq> 0 \<Longrightarrow>
   extract_safe x now (Extracted (r # rs)) w =
     (let w2 = fold move_result (r # rs) (extract_reset now w)
      in (True, update_state now ''EXTRACTION_COMPLETE'' (extraction_details x now w2) w2))"
  by (auto simp: extract_safe_def Let_def)

text \<open>
  C2. Extract runs from every workflow state: there is no state check. Its first part
  replaces whatever the temporary directory held by four empty directories and a state
  file that reads \<open>NOT_STARTED\<close>, so that nothing of the previous directory reaches the
  result; and when the extraction found an object or a grant, extract succeeds and the
  persisted state is \<open>EXTRACTION_COMPLETE\<close>.
\<close>

theorem extract_runs_from_every_state:
  "extract_reset now w = w\<lparr>temp := Some (fresh_temp now)\<rparr> \<and>
   get_current_state (extract_reset now w) = JStr ''NOT_STARTED'' \<and>
   extract_safe x now outcome w = extract_safe x now outcome (w\<lparr>temp := None\<rparr>) \<and>
   (object_count r \<noteq> 0 \<or> grant_count r \<noteq> 0 \<longrightarrow>
      fst (extract_safe x now (Extracted (r # rs)) w) \<and>
      get_current_state (snd (extract_safe x now (Extracted (r # rs)) w)) = JStr ''EXTRACTION_COMPLETE'')"
proof (intro conjI impI)
  show "extract_reset now w = w\<lparr>temp := Some (fresh_temp now)\<rparr>"
    by (rule extract_reset_eq)
  show "get_current_state (extract_reset now w) = JStr ''NOT_STARTED''"
    by (simp only: extract_reset_eq state_fresh)
  show "extract_safe x now outcome w = extract_safe x now outcome (w\<lparr>temp := None\<rparr>)"
    by (simp add: extract_safe_def extract_reset_eq)
next
  assume a: "object_count r \<noteq> 0 \<or> grant_count r \<noteq> 0"
  show "fst (extract_safe x now (Extracted (r # rs)) w)"
    by (simp add: extract_safe_success [OF a] Let_def)
  show "get_current_state (snd (extract_safe x now (Extracted (r # rs)) w)) = JStr ''EXTRACTION_COMPLETE''"
    by (simp add: extract_safe_success [OF a] Let_def)
qed

text \<open>Extract on a committed workflow, with one table found.\<close>

theorem extract_runs_from_every_state_witness:
  "get_current_state committed_world = JStr ''COMMITTED'' \<and>
   object_count one_table_result = 1 \<and>
   fst (extract_safe reporting ''t1'' (Extracted [one_table_result]) committed_world) \<and>
   get_current_state (snd (extract_safe reporting ''t1'' (Extracted [one_table_result]) committed_world))
     = JStr ''EXTRACTION_COMPLETE''"
  using extract_runs_from_every_state [of "''t1''" committed_world reporting "Extracted []" one_table_result "[]"]
  by (simp add: one_table_result_def committed_world_def get_current_state_def)

text \<open>
  C3. An extraction that finds no object and no grant makes extract report failure, and
  the temporary directory of the schema, with everything in it, the state file included,
  does not exist afterwards.
\<close>

theorem empty_extraction_fails_and_rolls_back:
  "object_count r = 0 \<and> grant_count r = 0 \<Longrightarrow>
   extract_safe x now (Extracted (r # rs)) w = (False, w\<lparr>temp := None\<rparr>)"
  by (simp add: extract_safe_def Let_def rmtree_temp_def extract_reset_eq)

text \<open>Scenario D: schema \<open>GHOST\<close>, nothing found.\<close>

theorem empty_extraction_fails_and_rolls_back_witness:
  "object_count ghost_result = 0 \<and> grant_count ghost_result = 0 \<and>
   extract_safe ghost ''t1'' (Extracted [ghost_result]) no_workflow = (False, no_workflow) \<and>
   temp (snd (extract_safe ghost ''t1'' (Extracted [ghost_result]) committed_world)) = None"
  using empty_extraction_fails_and_rolls_back [of ghost_result ghost "''t1''" "[]" no_workflow]
    empty_extraction_fails_and_rolls_back [of ghost_result ghost "''t1''" "[]" committed_world]
  by (simp add: ghost_result_def no_workflow_def)

lemma corrupt_unknown: "corrupt_state_file w \<Longrightarrow> get_current_state w = JStr ''UNKNOWN''"
  by (auto simp: corrupt_state_file_def state_file_of_def get_current_state_def
      split: option.splits json_file.splits)

text \<open>
  C10. Reading the persisted state is a total function of the files: without a state file
  it gives \<open>NOT_STARTED\<close>; with a state file that cannot be parsed, or that has no
  \<open>current_step\<close>, it gives \<open>UNKNOWN\<close>. \<open>UNKNOWN\<close> is none of the three precondition
  states, so with such a file review, generate and commit fail their validation and
  change nothing, while extract still runs and, when it finds an object or a grant,
  succeeds.
\<close>

theorem reading_state_is_total:
  "(state_file_of w = None \<longrightarrow> get_current_state w = JStr ''NOT_STARTED'') \<and>
   (state_file_of w = Some Unparseable \<longrightarrow> get_current_state w = JStr ''UNKNOWN'') \<and>
   (\<forall>doc. state_file_of w = Some (Parsed doc) \<longrightarrow>
      get_current_state w = (case current_step doc of None \<Rightarrow> JStr ''UNKNOWN'' | Some v \<Rightarrow> v)) \<and>
   (corrupt_state_file w \<longrightarrow>
      get_current_state w = JStr ''UNKNOWN'' \<and>
      \<not> validate_state_transition w ''EXTRACTION_COMPLETE'' \<and>
      \<not> validate_state_transition w ''REVIEW_COMPLETE'' \<and>
      \<not> validate_state_transition w ''FINAL_GENERATED'' \<and>
      start_review now written answers w = (Inr False, w) \<and>
      generate_final_version schema now w = (False, w) \<and>
      commit_schema now dry_run w = (False, w) \<and>
      (object_count r \<noteq> 0 \<or> grant_count r \<noteq> 0 \<longrightarrow>
         fst (extract_safe x now (Extracted (r # rs)) w) \<and>
         get_current_state (snd (extract_safe x now (Extracted (r # rs)) w))
           = JStr ''EXTRACTION_COMPLETE''))"
proof (intro conjI impI allI)
  show "state_file_of w = None \<Longrightarrow> get_current_state w = JStr ''NOT_STARTED''"
    by (auto simp: state_file_of_def get_current_state_def split: option.splits)
  show "state_file_of w = Some Unparseable \<Longrightarrow> get_current_state w = JStr ''UNKNOWN''"
    by (auto simp: state_file_of_def get_current_state_def split: option.splits)
  show "state_file_of w = Some (Parsed doc) \<Longrightarrow>
      get_current_state w = (case current_step doc of None \<Rightarrow> JStr ''UNKNOWN'' | Some v \<Rightarrow> v)" for doc
    by (auto simp: state_file_of_def get_current_state_def split: option.splits)
next
  assume c: "corrupt_state_file w"
  show u: "get_current_state w = JStr ''UNKNOWN''" by (rule corrupt_unknown [OF c])
  show "\<not> validate_state_transition w ''EXTRACTION_COMPLETE''"
    and "\<not> validate_state_transition w ''REVIEW_COMPLETE''"
    and "\<not> validate_state_transition w ''FINAL_GENERATED''"
    by (simp_all add: validate_state_transition_def u)
  then show "start_review now written answers w = (Inr False, w)"
    and "generate_final_version schema now w = (False, w)"
    and "commit_schema now dry_run w = (False, w)"
    by (simp_all add: start_review_def generate_final_version_def commit_schema_def)
next
  assume a: "object_count r \<noteq> 0 \<or> grant_count r \<noteq> 0"
  show "fst (extract_safe x now (Extracted (r # rs)) w)"
    by (simp add: extract_safe_success [OF a] Let_def)
  show "get_current_state (snd (extract_safe x now (Extracted (r # rs)) w)) = JStr ''EXTRACTION_COMPLETE''"
    by (simp add: extract_safe_success [OF a] Let_def)
qed

text \<open>A workflow directory whose state file is not JSON, and no directory at all.\<close>

theorem reading_state_is_total_witness:
  "corrupt_state_file corrupt_world \<and>
   state_file_of no_workflow = None \<and> get_current_state no_workflow = JStr ''NOT_STARTED'' \<and>
   state_file_of corrupt_world = Some Unparseable \<and>
   get_current_state corrupt_world = JStr ''UNKNOWN'' \<and>
   start_review ''t'' [] [''y''] corrupt_world = (Inr False, corrupt_world) \<and>
   generate_final_version ''S'' ''t'' corrupt_world = (False, corrupt_world) \<and>
   commit_schema ''t'' False corrupt_world = (False, corrupt_world) \<and>
   object_count one_table_result = 1 \<and>
   fst (extract_safe reporting ''t'' (Extracted [one_table_result]) corrupt_world) \<and>
   get_current_state (snd (extract_safe reporting ''t'' (Extracted [one_table_result]) corrupt_world))
     = JStr ''EXTRACTION_COMPLETE''"
proof -
  have c: "corrupt_state_file corrupt_world"
    by (simp add: corrupt_state_file_def state_file_of_def corrupt_world_def)
  have n: "state_file_of no_workflow = None"
    by (simp add: state_file_of_def no_workflow_def)
  have u: "state_file_of corrupt_world = Some Unparseable"
    by (simp add: state_file_of_def corrupt_world_def)
  have o: "object_count one_table_result = 1"
    by (simp add: one_table_result_def)
  show ?thesis
    using reading_state_is_total [of no_workflow "''t''" "[]" "[''y'']" "''S''" False one_table_result reporting "[]"]
      reading_state_is_total [of corrupt_world "''t''" "[]" "[''y'']" "''S''" False one_table_result reporting "[]"]
      c n u o
    by auto
qed

lemma loop_ex: "review_loop ''t1'' 1 [table_suggestion, view_suggestion] [''y'', ''q''] []
   = Inr (False, [accept_first, quit_second])"
  by code_simp

lemma rw_state: "get_current_state reviewing_world = JStr ''EXTRACTION_COMPLETE''"
  by (simp add: get_current_state_def reviewing_world_def)

lemma rw_af: "analysis_file reviewing_world = Some [table_suggestion, view_suggestion]"
  by (simp add: analysis_file_def reviewing_world_def)

lemma rw_ls: "load_suggestions reviewing_world = [table_suggestion, view_suggestion]"
  by (simp add: load_suggestions_def analysis_file_def reviewing_world_def)

lemma rw_raw: "raw_sql_files reviewing_world \<noteq> []"
  by (simp add: raw_sql_files_def reviewing_world_def glob_sql_def is_sql_def)

text \<open>
  C8, as stated, fails. The operator accepts the first suggestion and quits at the
  second: review reports failure and the world is unchanged, so the accept decision of
  that session is recorded nowhere (there is no decisions file).
\<close>

theorem quit_discards_earlier_decisions:
  "start_review ''t1'' [] [''y'', ''q''] reviewing_world = (Inr False, reviewing_world) \<and>
   review_loop ''t1'' 1 (load_suggestions reviewing_world) [''y'', ''q''] []
     = Inr (False, [accept_first, quit_second]) \<and>
   d_decision accept_first = ''accept'' \<and>
   decisions_file_of (snd (start_review ''t1'' [] [''y'', ''q''] reviewing_world)) = None"
proof -
  have s: "start_review ''t1'' [] [''y'', ''q''] reviewing_world = (Inr False, reviewing_world)"
    by (simp add: start_review_def validate_state_transition_def rw_state rw_af rw_ls rw_raw loop_ex
        del: review_loop.simps One_nat_def)
  show ?thesis
    by (simp add: s rw_ls loop_ex del: review_loop.simps One_nat_def)
       (simp add: accept_first_def decisions_file_of_def reviewing_world_def)
qed

lemma analyze_keeps:
  "analyze_schema_files written w = Inr w1 \<Longrightarrow>
     state_file_of w1 = state_file_of w \<and> decisions_file_of w1 = decisions_file_of w \<and>
     main_schema_dir w1 = main_schema_dir w"
  by (auto simp: analyze_schema_files_def state_file_of_def decisions_file_of_def split: option.splits)

lemma state_of_file: "state_file_of w1 = state_file_of w \<Longrightarrow> get_current_state w1 = get_current_state w"
  by (auto simp: state_file_of_def get_current_state_def split: option.splits)

text \<open>
  C8, amended. When the operator answers quit during a review session, review reports
  failure, the persisted state remains \<open>EXTRACTION_COMPLETE\<close>, and the state file, the
  decisions file and the schema directory are as they were before the session: no
  decision of the session is persisted, the accept and reject decisions made before the
  quit included.
\<close>

theorem quit_persists_nothing:
  assumes "operator_quit now written answers w"
  shows "fst (start_review now written answers w) = Inr False \<and>
         get_current_state (snd (start_review now written answers w)) = JStr ''EXTRACTION_COMPLETE'' \<and>
         state_file_of (snd (start_review now written answers w)) = state_file_of w \<and>
         decisions_file_of (snd (start_review now written answers w)) = decisions_file_of w \<and>
         main_schema_dir (snd (start_review now written answers w)) = main_schema_dir w"
proof -
  from assms have v: "validate_state_transition w ''EXTRACTION_COMPLETE''"
    by (simp add: operator_quit_def)
  from assms obtain w1 where
    w1: "(if analysis_file w = None then analyze_schema_files written w else Inr w) = Inr w1"
    by (auto simp: operator_quit_def split: sum.splits)
  from assms w1 have r: "raw_sql_files w1 \<noteq> []" "analysis_file w1 \<noteq> None" "load_suggestions w1 \<noteq> []"
    by (auto simp: operator_quit_def)
  from assms w1 obtain ds where
    l: "review_loop now 1 (load_suggestions w1) answers [] = Inr (False, ds)"
    by (auto simp: operator_quit_def split: sum.splits)
  have s: "start_review now written answers w = (Inr False, w1)"
    using v w1 r l by (simp add: start_review_def)
  have k: "state_file_of w1 = state_file_of w \<and> decisions_file_of w1 = decisions_file_of w \<and>
     main_schema_dir w1 = main_schema_dir w"
    using w1 analyze_keeps by (auto split: if_splits)
  have "get_current_state w = JStr ''EXTRACTION_COMPLETE''"
    using v by (simp add: validate_state_transition_def)
  with k state_of_file [of w1 w] show ?thesis by (simp add: s)
qed

text \<open>The session of the counterexample.\<close>

theorem quit_persists_nothing_witness:
  "operator_quit ''t1'' [] [''y'', ''q''] reviewing_world \<and>
   fst (start_review ''t1'' [] [''y'', ''q''] reviewing_world) = Inr False \<and>
   get_current_state (snd (start_review ''t1'' [] [''y'', ''q''] reviewing_world)) = JStr ''EXTRACTION_COMPLETE'' \<and>
   decisions_file_of (snd (start_review ''t1'' [] [''y'', ''q''] reviewing_world)) = None"
proof -
  have q: "operator_quit ''t1'' [] [''y'', ''q''] reviewing_world"
    by (simp add: operator_quit_def validate_state_transition_def rw_state rw_af rw_ls rw_raw loop_ex
        del: review_loop.simps One_nat_def)
  have d: "decisions_file_of reviewing_world = None"
    by (simp add: decisions_file_of_def reviewing_world_def)
  show ?thesis using quit_persists_nothing [OF q] q d by simp
qed

lemma apply_decisions_text:
  "fst (apply_decisions ds (content, applied)) = spec_apply_accepted ds content"
  by (induction ds arbitrary: content applied) (simp_all add: spec_apply_accepted_def Let_def)

lemma map_of_write_file: "map_of (write_file name content d) = (map_of d)(name \<mapsto> content)"
  by (induction d) (auto simp: fun_eq_iff)

lemma group_inner:
  "distinct (map fst files) \<Longrightarrow>
   fold (\<lambda>(file_name, content). add_decision d file_name) files m n
   = (if n \<in> fst ` set files then Some ((case m n of None \<Rightarrow> [] | Some ds \<Rightarrow> ds) @ [d]) else m n)"
proof (induction files arbitrary: m)
  case Nil
  then show ?case by simp
next
  case (Cons f files)
  obtain a b where f: "f = (a, b)" by (cases f)
  from Cons.prems have d: "distinct (map fst files)" and a: "a \<notin> fst ` set files"
    by (auto simp: f)
  have "fold (\<lambda>(file_name, content). add_decision d file_name) (f # files) m n
        = fold (\<lambda>(file_name, content). add_decision d file_name) files (add_decision d a m) n"
    by (simp add: f)
  also have "\<dots> = (if n \<in> fst ` set files
       then Some ((case add_decision d a m n of None \<Rightarrow> [] | Some ds \<Rightarrow> ds) @ [d])
       else add_decision d a m n)"
    by (rule Cons.IH [OF d])
  also have "\<dots> = (if n \<in> fst ` set (f # files)
       then Some ((case m n of None \<Rightarrow> [] | Some ds \<Rightarrow> ds) @ [d]) else m n)"
    using a by (auto simp: f add_decision_def)
  finally show ?case .
qed

lemma group_outer:
  "distinct (map fst files) \<Longrightarrow> n \<in> fst ` set files \<Longrightarrow> ds \<noteq> [] \<Longrightarrow>
   fold (\<lambda>d. fold (\<lambda>(file_name, content). add_decision d file_name) files) ds m n
   = Some ((case m n of None \<Rightarrow> [] | Some l \<Rightarrow> l) @ ds)"
proof (induction ds arbitrary: m)
  case Nil
  then show ?case by simp
next
  case (Cons d ds)
  let ?inner = "\<lambda>d. fold (\<lambda>(file_name, content). add_decision d file_name) files"
  have i: "?inner d m n = Some ((case m n of None \<Rightarrow> [] | Some l \<Rightarrow> l) @ [d])"
    using Cons.prems(1,2) by (simp only: group_inner if_True)
  have u: "fold ?inner (d # ds) m n = fold ?inner ds (?inner d m) n"
    by simp
  show ?case
  proof (cases "ds = []")
    case True
    then show ?thesis using i by simp
  next
    case False
    have "fold ?inner ds (?inner d m) n
          = Some ((case ?inner d m n of None \<Rightarrow> [] | Some l \<Rightarrow> l) @ ds)"
      by (rule Cons.IH [OF Cons.prems(1,2) False])
    then show ?thesis unfolding u i by simp
  qed
qed

lemma group_decisions_all:
  "distinct (map fst files) \<Longrightarrow> n \<in> fst ` set files \<Longrightarrow> ds \<noteq> [] \<Longrightarrow>
   group_decisions_by_file ds files n = Some ds"
  by (simp add: group_decisions_by_file_def group_outer)

lemma final_text_eq:
  assumes "distinct (map fst files)" "(name, content) \<in> set files" "ds \<noteq> []"
  shows "final_text schema now (group_decisions_by_file ds files) name content
         = final_header schema now ds name content @ spec_apply_accepted ds content"
proof -
  have n: "name \<in> fst ` set files" using assms(2) by force
  have g: "group_decisions_by_file ds files name = Some ds"
    by (rule group_decisions_all [OF assms(1) n assms(3)])
  obtain c a where ca: "apply_decisions ds (content, []) = (c, a)"
    by (cases "apply_decisions ds (content, [])")
  have "c = spec_apply_accepted ds content"
    using apply_decisions_text [of ds content "[]"] ca by simp
  then show ?thesis
    using assms(3) by (simp add: final_text_def g ca final_header_def)
qed

lemma final_file_write:
  "temp w \<noteq> None \<Longrightarrow>
   final_file (write_final name content w) n = (if n = name then Some content else final_file w n)"
  by (auto simp: final_file_def write_final_def map_of_write_file split: option.splits)

lemma temp_write_final: "temp w \<noteq> None \<Longrightarrow> temp (write_final name content w) \<noteq> None"
  by (auto simp: write_final_def split: option.splits)

lemma temp_write_final_iff [simp]: "temp (write_final name content w) = None \<longleftrightarrow> temp w = None"
  by (auto simp: write_final_def split: option.splits)

lemma fold_write_final:
  "temp w \<noteq> None \<Longrightarrow> distinct (map fst files) \<Longrightarrow> (name, content) \<in> set files \<Longrightarrow>
   final_file (fold (\<lambda>(n, c). write_final n (g n c)) files w) name = Some (g name content)"
proof (induction files arbitrary: w)
  case Nil
  then show ?case by simp
next
  case (Cons f files)
  obtain a b where f: "f = (a, b)" by (cases f)
  have t: "temp (write_final a (g a b) w) \<noteq> None"
    by (rule temp_write_final [OF Cons.prems(1)])
  from Cons.prems(2) have d: "distinct (map fst files)" and a: "a \<notin> fst ` set files"
    by (auto simp: f)
  show ?case
  proof (cases "(name, content) \<in> set files")
    case True
    then show ?thesis using Cons.IH [OF t d True] by (simp add: f)
  next
    case False
    then have e: "name = a" "content = b" using Cons.prems(3) by (auto simp: f)
    have keep: "temp v \<noteq> None \<Longrightarrow> a \<notin> fst ` set fs \<Longrightarrow>
        final_file (fold (\<lambda>(n, c). write_final n (g n c)) fs v) a = final_file v a" for fs v
    proof (induction fs arbitrary: v)
      case Nil
      then show ?case by simp
    next
      case (Cons h fs)
      obtain p q where h: "h = (p, q)" by (cases h)
      have "temp (write_final p (g p q) v) \<noteq> None" by (rule temp_write_final [OF Cons.prems(1)])
      moreover have "a \<notin> fst ` set fs" "a \<noteq> p" using Cons.prems(2) by (auto simp: h)
      ultimately show ?case using Cons.IH [of "write_final p (g p q) v"] Cons.prems(1)
        by (simp add: h final_file_write)
    qed
    show ?thesis
      using keep [OF t a] Cons.prems(1) by (simp add: f e final_file_write)
  qed
qed

lemma final_file_update_state [simp]:
  "temp w \<noteq> None \<Longrightarrow> final_file (update_state now step dets w) n = final_file w n"
  by (auto simp: final_file_def update_state_def Let_def)

lemma temp_fold_write:
  "temp (fold (\<lambda>(n, c). write_final n (g n c)) files w) = None \<longleftrightarrow> temp w = None"
  by (induction files arbitrary: w) (simp_all split: prod.splits)

lemma temp_mkdir_final [simp]: "temp (mkdir_final w) \<noteq> None"
  by (simp add: mkdir_final_def Let_def)

lemma raw_mkdir_final [simp]: "raw_sql_files (mkdir_final w) = raw_sql_files w"
  by (auto simp: mkdir_final_def raw_sql_files_def Let_def empty_temp_def split: option.splits)

lemma distinct_glob: "distinct (map fst r) \<Longrightarrow> distinct (map fst (glob_sql r))"
  by (simp add: glob_sql_def distinct_map_filter)

text \<open>
  C9. In state \<open>REVIEW_COMPLETE\<close>, with \<open>raw\<close> and the decisions file present, the
  generator succeeds and leaves the persisted state at \<open>FINAL_GENERATED\<close>; the final
  version of every SQL file of \<open>raw\<close> is a header followed by the raw text in which every
  accepted decision of the decisions file, whichever file it came from, has been applied
  as a literal replacement of the original by the suggested text; decisions that are not
  accepted change no text.
\<close>

theorem accepted_decisions_applied_to_every_file:
  assumes "get_current_state w = JStr ''REVIEW_COMPLETE''"
    and "temp w = Some t" and "raw t = Some r" and "decisions_file t = Some df"
    and "distinct (map fst r)"
  shows "fst (generate_final_version schema now w) \<and>
         get_current_state (snd (generate_final_version schema now w)) = JStr ''FINAL_GENERATED'' \<and>
         (\<forall>(name, content) \<in> set (glob_sql r).
            final_file (snd (generate_final_version schema now w)) name
              = Some (final_header schema now (load_decisions t) name content
                      @ spec_apply_accepted (load_decisions t) content)) \<and>
         (\<forall>content. (\<forall>d \<in> set (load_decisions t). d_decision d \<noteq> ''accept'') \<longrightarrow>
            spec_apply_accepted (load_decisions t) content = content)"
proof (intro conjI)
  have v: "validate_state_transition w ''REVIEW_COMPLETE''"
    using assms(1) by (simp add: validate_state_transition_def)
  have rs: "raw_sql_files w = glob_sql r"
    using assms(2,3) by (simp add: raw_sql_files_def)
  have dg: "distinct (map fst (glob_sql r))" by (rule distinct_glob [OF assms(5)])
  let ?ds = "load_decisions t"
  have g: "generate_final_version schema now w =
      (True, if ?ds = [] then generate_final_without_decisions schema now w
             else generate_final_with_decisions schema now ?ds w)"
    using v assms(2,3,4) by (simp add: generate_final_version_def Let_def)
  show "fst (generate_final_version schema now w)" by (simp add: g)
  show "get_current_state (snd (generate_final_version schema now w)) = JStr ''FINAL_GENERATED''"
    by (simp add: g generate_final_without_decisions_def generate_final_with_decisions_def Let_def)
  show "\<forall>(name, content) \<in> set (glob_sql r).
            final_file (snd (generate_final_version schema now w)) name
              = Some (final_header schema now ?ds name content @ spec_apply_accepted ?ds content)"
  proof (clarify)
    fix name content assume m: "(name, content) \<in> set (glob_sql r)"
    show "final_file (snd (generate_final_version schema now w)) name
              = Some (final_header schema now ?ds name content @ spec_apply_accepted ?ds content)"
    proof (cases "?ds = []")
      case True
      have "final_file (fold (\<lambda>(n, c). write_final n (header_without_decisions schema now @ c))
               (glob_sql r) (mkdir_final w)) name = Some (header_without_decisions schema now @ content)"
        by (rule fold_write_final [where g = "\<lambda>n c. header_without_decisions schema now @ c",
              OF temp_mkdir_final dg m])
      then show ?thesis
        using True
        by (simp add: g generate_final_without_decisions_def Let_def rs temp_fold_write
            final_header_def spec_apply_accepted_def)
    next
      case False
      let ?g = "\<lambda>n c. final_text schema now (group_decisions_by_file ?ds (glob_sql r)) n c"
      have "final_file (fold (\<lambda>(n, c). write_final n (?g n c)) (glob_sql r) (mkdir_final w)) name
            = Some (?g name content)"
        by (rule fold_write_final [where g = ?g, OF temp_mkdir_final dg m])
      then show ?thesis
        using False
        by (simp add: g generate_final_with_decisions_def Let_def rs temp_fold_write
            final_text_eq [OF dg m False])
    qed
  qed
  show "\<forall>content. (\<forall>d \<in> set ?ds. d_decision d \<noteq> ''accept'') \<longrightarrow>
            spec_apply_accepted ?ds content = content"
    by (simp add: spec_apply_accepted_def)
qed


text \<open>
  Two raw files and two decisions, the first accepted, the second rejected. The accepted
  one came from the DDL file; it is applied to the grants file as well, and the rejected
  one changes nothing there.
\<close>

theorem accepted_decisions_applied_to_every_file_witness:
  "get_current_state reviewed_world = JStr ''REVIEW_COMPLETE'' \<and>
   load_decisions reviewed_temp = [accept_first, reject_view] \<and>
   fst (generate_final_version ''REPORTING'' ''t2'' reviewed_world) \<and>
   get_current_state (snd (generate_final_version ''REPORTING'' ''t2'' reviewed_world))
     = JStr ''FINAL_GENERATED'' \<and>
   final_file (snd (generate_final_version ''REPORTING'' ''t2'' reviewed_world))
       ''V1001__grants_from_PLATFORM_SIT.sql''
     = Some (final_header ''REPORTING'' ''t2'' [accept_first, reject_view]
               ''V1001__grants_from_PLATFORM_SIT.sql''
               ''GRANT USAGE ON DATABASE PLATFORM_SIT TO ROLE PLATFORM_QA_R;''
             @ ''GRANT USAGE ON DATABASE {{DB_BASE}}_{{ENV}} TO ROLE PLATFORM_QA_R;'')"
proof -
  let ?r = "[(''V1000__baseline_from_PLATFORM_SIT.sql'', ''SELECT * FROM PLATFORM_SIT.FOO.BAR;''),
             (''V1001__grants_from_PLATFORM_SIT.sql'',
              ''GRANT USAGE ON DATABASE PLATFORM_SIT TO ROLE PLATFORM_QA_R;'')]"
  have s: "get_current_state reviewed_world = JStr ''REVIEW_COMPLETE''"
    by (simp add: get_current_state_def reviewed_world_def reviewed_temp_def)
  have t: "temp reviewed_world = Some reviewed_temp" by (simp add: reviewed_world_def)
  have r: "raw reviewed_temp = Some ?r" by (simp add: reviewed_temp_def)
  have d: "decisions_file reviewed_temp = Some (Parsed [accept_first, reject_view])"
    by (simp add: reviewed_temp_def)
  have l: "load_decisions reviewed_temp = [accept_first, reject_view]"
    by (simp add: load_decisions_def d)
  have n: "distinct (map fst ?r)" by simp
  have m: "(''V1001__grants_from_PLATFORM_SIT.sql'',
            ''GRANT USAGE ON DATABASE PLATFORM_SIT TO ROLE PLATFORM_QA_R;'') \<in> set (glob_sql ?r)"
    by (simp add: glob_sql_def is_sql_def)
  have a: "spec_apply_accepted [accept_first, reject_view]
             ''GRANT USAGE ON DATABASE PLATFORM_SIT TO ROLE PLATFORM_QA_R;''
           = ''GRANT USAGE ON DATABASE {{DB_BASE}}_{{ENV}} TO ROLE PLATFORM_QA_R;''"
    by code_simp
  note th = accepted_decisions_applied_to_every_file [OF s t r d n, of "''REPORTING''" "''t2''"]
  from th have f: "fst (generate_final_version ''REPORTING'' ''t2'' reviewed_world)"
    by (rule conjunct1)
  from th have g: "get_current_state (snd (generate_final_version ''REPORTING'' ''t2'' reviewed_world))
      = JStr ''FINAL_GENERATED''"
    by (elim conjE)
  from th have "\<forall>(name, content) \<in> set (glob_sql ?r).
      final_file (snd (generate_final_version ''REPORTING'' ''t2'' reviewed_world)) name
        = Some (final_header ''REPORTING'' ''t2'' (load_decisions reviewed_temp) name content
                @ spec_apply_accepted (load_decisions reviewed_temp) content)"
    by (elim conjE)
  from bspec [OF this m] have h: "final_file (snd (generate_final_version ''REPORTING'' ''t2'' reviewed_world))
       ''V1001__grants_from_PLATFORM_SIT.sql''
     = Some (final_header ''REPORTING'' ''t2'' [accept_first, reject_view]
               ''V1001__grants_from_PLATFORM_SIT.sql''
               ''GRANT USAGE ON DATABASE PLATFORM_SIT TO ROLE PLATFORM_QA_R;''
             @ ''GRANT USAGE ON DATABASE {{DB_BASE}}_{{ENV}} TO ROLE PLATFORM_QA_R;'')"
    by (simp add: l a)
  show ?thesis using s l f g h by simp
qed

section \<open>Properties of the templating analyzer\<close>

text \<open>
  C5. The claim asks that a candidate which does not itself follow \<open>FROM\<close>, \<open>JOIN\<close>,
  \<open>UPDATE\<close> or \<open>DELETE FROM\<close> is classified unsafe, a reference after \<open>CREATE VIEW\<close>
  and one inside a string literal included. The code searches the four safe patterns in
  the whole window of the candidate, before its other tests and without regard to the
  position of the candidate. In \<open>create_view_ddl\<close> the candidate at positions 12 to 24 is
  the database of the view that is created; in \<open>string_literal_sql\<close> the candidate at
  positions 8 to 20 is inside a string literal. The same name follows \<open>FROM\<close> later in
  the window, and both candidates are classified safe, with risk level \<open>LOW\<close>.
\<close>

theorem reference_after_create_view_classified_safe:
  "take 12 create_view_ddl = ''CREATE VIEW '' \<and>
   take 12 (drop 12 create_view_ddl) = ''PLATFORM_SIT'' \<and>
   context_window create_view_ddl 12 24 = create_view_ddl \<and>
   is_safe_to_template ''PLATFORM_SIT'' create_view_ddl create_view_ddl 12 24
     = (True, ''Database reference in FROM/JOIN clause - safe to template'') \<and>
   s_is_safe (analyze_database_reference ''PLATFORM_SIT'' 12 24 create_view_ddl) \<and>
   s_risk_level (analyze_database_reference ''PLATFORM_SIT'' 12 24 create_view_ddl) = ''LOW'' \<and>
   take 12 (drop 8 string_literal_sql) = ''PLATFORM_SIT'' \<and>
   is_in_string_literal string_literal_sql 8 20 \<and>
   is_safe_to_template ''PLATFORM_SIT'' string_literal_sql string_literal_sql 8 20
     = (True, ''Database reference in FROM/JOIN clause - safe to template'') \<and>
   s_is_safe (analyze_database_reference ''PLATFORM_SIT'' 8 20 string_literal_sql)"
proof -
  have 1: "take 12 create_view_ddl = ''CREATE VIEW ''"
    "take 12 (drop 12 create_view_ddl) = ''PLATFORM_SIT''"
    "take 12 (drop 8 string_literal_sql) = ''PLATFORM_SIT''"
    by (simp_all add: create_view_ddl_def string_literal_sql_def)
  have 2: "context_window create_view_ddl 12 24 = create_view_ddl"
    by (simp add: context_window_def create_view_ddl_def)
  have 3: "is_safe_to_template ''PLATFORM_SIT'' create_view_ddl create_view_ddl 12 24
     = (True, ''Database reference in FROM/JOIN clause - safe to template'')"
    by code_simp
  have 4: "context_window string_literal_sql 8 20 = string_literal_sql"
    by (simp add: context_window_def string_literal_sql_def)
  have 5: "is_safe_to_template ''PLATFORM_SIT'' string_literal_sql string_literal_sql 8 20
     = (True, ''Database reference in FROM/JOIN clause - safe to template'')"
    by code_simp
  have 6: "is_in_string_literal string_literal_sql 8 20"
    by code_simp
  show ?thesis
    by (simp add: 1 2 3 4 5 6 analyze_database_reference_def)
qed

section \<open>Properties of the comparison\<close>

lemma classify_new:
  "o_new (classify_object c p k ch) =
     (if normalized_lookup c k = [] \<and> normalized_lookup p k \<noteq> [] then o_new ch @ [k] else o_new ch)"
  by (simp add: classify_object_def normalized_lookup_def Let_def)

lemma classify_removed:
  "o_removed (classify_object c p k ch) =
     (if normalized_lookup c k \<noteq> [] \<and> normalized_lookup p k = [] then o_removed ch @ [k]
      else o_removed ch)"
  by (simp add: classify_object_def normalized_lookup_def Let_def)

lemma classify_modified:
  "o_modified (classify_object c p k ch) =
     (if normalized_lookup c k \<noteq> [] \<and> normalized_lookup p k \<noteq> [] \<and>
         normalized_lookup c k \<noteq> normalized_lookup p k
      then o_modified ch @ [k] else o_modified ch)"
  by (auto simp: classify_object_def normalized_lookup_def Let_def)

lemma classify_unchanged:
  "o_unchanged (classify_object c p k ch) =
     (if normalized_lookup c k = normalized_lookup p k then o_unchanged ch @ [k]
      else o_unchanged ch)"
  by (auto simp: classify_object_def normalized_lookup_def Let_def)

lemma fold_new:
  "o_new (fold (classify_object c p) ks ch) =
     o_new ch @ filter (\<lambda>k. normalized_lookup c k = [] \<and> normalized_lookup p k \<noteq> []) ks"
  by (induction ks arbitrary: ch) (simp_all add: classify_new)

lemma fold_removed:
  "o_removed (fold (classify_object c p) ks ch) =
     o_removed ch @ filter (\<lambda>k. normalized_lookup c k \<noteq> [] \<and> normalized_lookup p k = []) ks"
  by (induction ks arbitrary: ch) (simp_all add: classify_removed)

lemma fold_modified:
  "o_modified (fold (classify_object c p) ks ch) =
     o_modified ch @ filter (\<lambda>k. normalized_lookup c k \<noteq> [] \<and> normalized_lookup p k \<noteq> [] \<and>
         normalized_lookup c k \<noteq> normalized_lookup p k) ks"
  by (induction ks arbitrary: ch) (simp_all add: classify_modified)

lemma fold_unchanged:
  "o_unchanged (fold (classify_object c p) ks ch) =
     o_unchanged ch @ filter (\<lambda>k. normalized_lookup c k = normalized_lookup p k) ks"
  by (induction ks arbitrary: ch) (simp_all add: classify_unchanged)

lemma compare_objects_lists:
  "o_new (compare_objects c p) =
     filter (\<lambda>k. normalized_lookup c k = [] \<and> normalized_lookup p k \<noteq> []) (all_objects c p)"
  "o_removed (compare_objects c p) =
     filter (\<lambda>k. normalized_lookup c k \<noteq> [] \<and> normalized_lookup p k = []) (all_objects c p)"
  "o_modified (compare_objects c p) =
     filter (\<lambda>k. normalized_lookup c k \<noteq> [] \<and> normalized_lookup p k \<noteq> [] \<and>
         normalized_lookup c k \<noteq> normalized_lookup p k) (all_objects c p)"
  "o_unchanged (compare_objects c p) =
     filter (\<lambda>k. normalized_lookup c k = normalized_lookup p k) (all_objects c p)"
  by (simp_all add: compare_objects_def fold_new fold_removed fold_modified fold_unchanged)

lemma set_all_objects: "set (all_objects c p) = fst ` set c \<union> fst ` set p"
  by (simp add: all_objects_def)

lemma distinct_all_objects: "distinct (all_objects c p)"
  by (simp add: all_objects_def)

lemma normalize_ddl_empty: "normalize_ddl [] = []"
  by (simp add: normalize_ddl_def)

lemma strip_empty: "strip [] = []"
  by (simp add: strip_def lstrip_def rstrip_def)

lemma absent_lookup: "k \<notin> fst ` set d \<Longrightarrow> normalized_lookup d k = []"
  by (simp add: normalized_lookup_def get_or_empty_def map_of_eq_None_iff [THEN iffD2]
      strip_empty normalize_ddl_empty)

lemma present_lookup:
  "every_ddl_nonempty d \<Longrightarrow> k \<in> fst ` set d \<Longrightarrow> normalized_lookup d k \<noteq> []"
proof -
  assume e: "every_ddl_nonempty d" and k: "k \<in> fst ` set d"
  then obtain v where v: "map_of d k = Some v"
    by (cases "map_of d k") (auto simp: map_of_eq_None_iff)
  then have "(k, v) \<in> set d" by (rule map_of_SomeD)
  with e have "normalize_ddl (strip v) \<noteq> []"
    by (auto simp: every_ddl_nonempty_def list_all_iff)
  then show ?thesis by (simp add: normalized_lookup_def get_or_empty_def v)
qed

lemma lookup_empty_iff:
  "every_ddl_nonempty d \<Longrightarrow> normalized_lookup d k = [] \<longleftrightarrow> k \<notin> fst ` set d"
  using present_lookup [of d k] absent_lookup [of k d] by blast

text \<open>
  C6, as stated, fails. The DDL of \<open>TABLE:A\<close> could not be fetched from the target, so
  its slot holds the error comment; the key is present in both mappings, and it is
  classified new, not modified.
\<close>

theorem present_key_classified_new:
  "''TABLE:A'' \<in> fst ` set failed_fetch_current \<and>
   ''TABLE:A'' \<in> fst ` set one_table_proposed \<and>
   compare_objects failed_fetch_current one_table_proposed
     = \<lparr>o_new = [''TABLE:A''], o_modified = [], o_removed = [], o_unchanged = []\<rparr>"
proof -
  have "compare_objects failed_fetch_current one_table_proposed
     = \<lparr>o_new = [''TABLE:A''], o_modified = [], o_removed = [], o_unchanged = []\<rparr>"
    by code_simp
  then show ?thesis by (simp add: failed_fetch_current_def one_table_proposed_def)
qed

text \<open>
  C6, amended. Every key of the union of the two key sets is put in exactly one of the
  four lists: new when its normalized current DDL is empty (the key is absent from the
  current mapping, or its DDL is empty after normalization) and its normalized proposed
  DDL is not, removed in the converse case, modified when both are non-empty and differ,
  unchanged when they are equal. When no DDL of either mapping is empty after
  normalization, this is the classification by presence: new is absent in current and
  present in proposed, removed is present in current and absent in proposed, modified
  and unchanged are present in both with differing or equal normalized DDL. Grants are
  classified by set difference over their normalized forms into new, removed and
  unchanged, three disjoint sets, with no modified category.
\<close>

theorem objects_and_grants_classified:
  "distinct (o_new (compare_objects c p) @ o_removed (compare_objects c p)
             @ o_modified (compare_objects c p) @ o_unchanged (compare_objects c p)) \<and>
   set (o_new (compare_objects c p) @ o_removed (compare_objects c p)
        @ o_modified (compare_objects c p) @ o_unchanged (compare_objects c p))
     = fst ` set c \<union> fst ` set p \<and>
   (k \<in> set (o_new (compare_objects c p)) \<longleftrightarrow>
      k \<in> fst ` set c \<union> fst ` set p \<and> normalized_lookup c k = [] \<and> normalized_lookup p k \<noteq> []) \<and>
   (k \<in> set (o_removed (compare_objects c p)) \<longleftrightarrow>
      k \<in> fst ` set c \<union> fst ` set p \<and> normalized_lookup c k \<noteq> [] \<and> normalized_lookup p k = []) \<and>
   (k \<in> set (o_modified (compare_objects c p)) \<longleftrightarrow>
      k \<in> fst ` set c \<union> fst ` set p \<and> normalized_lookup c k \<noteq> [] \<and> normalized_lookup p k \<noteq> [] \<and>
      normalized_lookup c k \<noteq> normalized_lookup p k) \<and>
   (k \<in> set (o_unchanged (compare_objects c p)) \<longleftrightarrow>
      k \<in> fst ` set c \<union> fst ` set p \<and> normalized_lookup c k = normalized_lookup p k) \<and>
   (every_ddl_nonempty c \<and> every_ddl_nonempty p \<longrightarrow>
      (k \<in> set (o_new (compare_objects c p)) \<longleftrightarrow> k \<notin> fst ` set c \<and> k \<in> fst ` set p) \<and>
      (k \<in> set (o_removed (compare_objects c p)) \<longleftrightarrow> k \<in> fst ` set c \<and> k \<notin> fst ` set p) \<and>
      (k \<in> set (o_modified (compare_objects c p)) \<longleftrightarrow>
         k \<in> fst ` set c \<and> k \<in> fst ` set p \<and> normalized_lookup c k \<noteq> normalized_lookup p k) \<and>
      (k \<in> set (o_unchanged (compare_objects c p)) \<longleftrightarrow>
         k \<in> fst ` set c \<and> k \<in> fst ` set p \<and> normalized_lookup c k = normalized_lookup p k)) \<and>
   g_new (compare_grants cg pg) = normalize_grant ` set pg - normalize_grant ` set cg \<and>
   g_removed (compare_grants cg pg) = normalize_grant ` set cg - normalize_grant ` set pg \<and>
   g_unchanged (compare_grants cg pg) = normalize_grant ` set cg \<inter> normalize_grant ` set pg \<and>
   g_new (compare_grants cg pg) \<inter> g_removed (compare_grants cg pg) = {} \<and>
   g_new (compare_grants cg pg) \<inter> g_unchanged (compare_grants cg pg) = {} \<and>
   g_removed (compare_grants cg pg) \<inter> g_unchanged (compare_grants cg pg) = {} \<and>
   g_new (compare_grants cg pg) \<union> g_removed (compare_grants cg pg) \<union> g_unchanged (compare_grants cg pg)
     = normalize_grant ` set cg \<union> normalize_grant ` set pg"
proof -
  let ?K = "all_objects c p"
  have d: "distinct ?K" by (rule distinct_all_objects)
  have s: "set ?K = fst ` set c \<union> fst ` set p" by (rule set_all_objects)
  have 1: "distinct (o_new (compare_objects c p) @ o_removed (compare_objects c p)
             @ o_modified (compare_objects c p) @ o_unchanged (compare_objects c p))"
    using d by (auto simp: compare_objects_lists)
  have 2: "set (o_new (compare_objects c p) @ o_removed (compare_objects c p)
        @ o_modified (compare_objects c p) @ o_unchanged (compare_objects c p))
     = fst ` set c \<union> fst ` set p"
    unfolding s [symmetric] by (auto simp: compare_objects_lists)
  have 3: "k \<in> set (o_new (compare_objects c p)) \<longleftrightarrow>
      k \<in> fst ` set c \<union> fst ` set p \<and> normalized_lookup c k = [] \<and> normalized_lookup p k \<noteq> []"
    unfolding s [symmetric] by (auto simp: compare_objects_lists)
  have 4: "k \<in> set (o_removed (compare_objects c p)) \<longleftrightarrow>
      k \<in> fst ` set c \<union> fst ` set p \<and> normalized_lookup c k \<noteq> [] \<and> normalized_lookup p k = []"
    unfolding s [symmetric] by (auto simp: compare_objects_lists)
  have 5: "k \<in> set (o_modified (compare_objects c p)) \<longleftrightarrow>
      k \<in> fst ` set c \<union> fst ` set p \<and> normalized_lookup c k \<noteq> [] \<and> normalized_lookup p k \<noteq> [] \<and>
      normalized_lookup c k \<noteq> normalized_lookup p k"
    unfolding s [symmetric] by (auto simp: compare_objects_lists)
  have 6: "k \<in> set (o_unchanged (compare_objects c p)) \<longleftrightarrow>
      k \<in> fst ` set c \<union> fst ` set p \<and> normalized_lookup c k = normalized_lookup p k"
    unfolding s [symmetric] by (auto simp: compare_objects_lists)
  have 7: "every_ddl_nonempty c \<and> every_ddl_nonempty p \<longrightarrow>
      (k \<in> set (o_new (compare_objects c p)) \<longleftrightarrow> k \<notin> fst ` set c \<and> k \<in> fst ` set p) \<and>
      (k \<in> set (o_removed (compare_objects c p)) \<longleftrightarrow> k \<in> fst ` set c \<and> k \<notin> fst ` set p) \<and>
      (k \<in> set (o_modified (compare_objects c p)) \<longleftrightarrow>
         k \<in> fst ` set c \<and> k \<in> fst ` set p \<and> normalized_lookup c k \<noteq> normalized_lookup p k) \<and>
      (k \<in> set (o_unchanged (compare_objects c p)) \<longleftrightarrow>
         k \<in> fst ` set c \<and> k \<in> fst ` set p \<and> normalized_lookup c k = normalized_lookup p k)"
  proof
    assume e: "every_ddl_nonempty c \<and> every_ddl_nonempty p"
    have lc: "normalized_lookup c k = [] \<longleftrightarrow> k \<notin> fst ` set c"
      using e by (simp add: lookup_empty_iff)
    have lp: "normalized_lookup p k = [] \<longleftrightarrow> k \<notin> fst ` set p"
      using e by (simp add: lookup_empty_iff)
    show "(k \<in> set (o_new (compare_objects c p)) \<longleftrightarrow> k \<notin> fst ` set c \<and> k \<in> fst ` set p) \<and>
      (k \<in> set (o_removed (compare_objects c p)) \<longleftrightarrow> k \<in> fst ` set c \<and> k \<notin> fst ` set p) \<and>
      (k \<in> set (o_modified (compare_objects c p)) \<longleftrightarrow>
         k \<in> fst ` set c \<and> k \<in> fst ` set p \<and> normalized_lookup c k \<noteq> normalized_lookup p k) \<and>
      (k \<in> set (o_unchanged (compare_objects c p)) \<longleftrightarrow>
         k \<in> fst ` set c \<and> k \<in> fst ` set p \<and> normalized_lookup c k = normalized_lookup p k)"
      unfolding 3 4 5 6 using lc lp by auto
  qed
  have 8: "g_new (compare_grants cg pg) = normalize_grant ` set pg - normalize_grant ` set cg"
    "g_removed (compare_grants cg pg) = normalize_grant ` set cg - normalize_grant ` set pg"
    "g_unchanged (compare_grants cg pg) = normalize_grant ` set cg \<inter> normalize_grant ` set pg"
    by (simp_all add: compare_grants_def Let_def)
  have 9: "g_new (compare_grants cg pg) \<inter> g_removed (compare_grants cg pg) = {}"
    "g_new (compare_grants cg pg) \<inter> g_unchanged (compare_grants cg pg) = {}"
    "g_removed (compare_grants cg pg) \<inter> g_unchanged (compare_grants cg pg) = {}"
    "g_new (compare_grants cg pg) \<union> g_removed (compare_grants cg pg) \<union> g_unchanged (compare_grants cg pg)
     = normalize_grant ` set cg \<union> normalize_grant ` set pg"
    unfolding 8 by blast+
  show ?thesis
    using 1 2 3 4 5 6 7 8 9 by (intro conjI)
qed

text \<open>
  A table that is in the target and in the proposed files, written differently, and a
  view that is only proposed: the table is unchanged, the view is new.
\<close>

theorem objects_and_grants_classified_witness:
  "every_ddl_nonempty one_table_current \<and> every_ddl_nonempty new_view_proposed \<and>
   ''VIEW:V'' \<notin> fst ` set one_table_current \<and> ''VIEW:V'' \<in> fst ` set new_view_proposed \<and>
   ''VIEW:V'' \<in> set (o_new (compare_objects one_table_current new_view_proposed)) \<and>
   compare_objects one_table_current new_view_proposed
     = \<lparr>o_new = [''VIEW:V''], o_modified = [], o_removed = [], o_unchanged = [''TABLE:A'']\<rparr>"
proof -
  have c: "every_ddl_nonempty one_table_current"
    by code_simp
  have p: "every_ddl_nonempty new_view_proposed"
    by code_simp
  have a: "''VIEW:V'' \<notin> fst ` set one_table_current" "''VIEW:V'' \<in> fst ` set new_view_proposed"
    by (simp_all add: one_table_current_def new_view_proposed_def)
  have e: "compare_objects one_table_current new_view_proposed
     = \<lparr>o_new = [''VIEW:V''], o_modified = [], o_removed = [], o_unchanged = [''TABLE:A'']\<rparr>"
    by code_simp
  note th = objects_and_grants_classified [of one_table_current new_view_proposed "''VIEW:V''"]
  note presence = th [THEN conjunct2, THEN conjunct2, THEN conjunct2, THEN conjunct2,
      THEN conjunct2, THEN conjunct2, THEN conjunct1, THEN mp, OF conjI [OF c p]]
  have n: "''VIEW:V'' \<in> set (o_new (compare_objects one_table_current new_view_proposed))"
    using presence [THEN conjunct1] a by (rule iffD2 [OF _ conjI])
  show ?thesis using c p a n e by simp
qed







end
